theory Spec2Isabelle
  imports Main
begin

section \<open>Values exchanged with the Go libraries\<close>

text \<open>
  The networking code of the kvm flavor (kvm.go) drives the kernel through the netlink and
  tuntap bindings, calls CNI plugins as external processes and reads a lease file. None of
  these collaborators is part of the sources; each is a field of the record \<open>host\<close> below, and
  the general theorems hold for an arbitrary host. What the program itself decides (the order
  of the calls, the arguments, what is done with an error) is translated function by function.
  A small reference host, defined after the program, serves to run it on concrete inputs.
\<close>

text \<open>\<open>net.IP\<close> and \<open>net.IPMask\<close> are byte slices; \<open>[]\<close> is the nil slice.\<close>

type_synonym IP = "nat list"

type_synonym bytes = string

record IPNet =
  IPNet_IP :: IP
  IPNet_Mask :: IP

text \<open>\<open>netlink.LinkAttrs\<close>, with the fields this file reads or writes.\<close>

record LinkAttrs =
  Attr_Name :: string
  Attr_MTU :: int
  Attr_Index :: int
  Attr_ParentIndex :: int

datatype MacvlanMode =
  MACVLAN_MODE_BRIDGE | MACVLAN_MODE_PRIVATE | MACVLAN_MODE_VEPA | MACVLAN_MODE_PASSTHRU

text \<open>
  \<open>netlink.Link\<close> is an interface; the dynamic type of a value decides the type assertion in
  \<open>bridgeByName\<close>. \<open>Device\<close> stands for every other kind of link the kernel may report.
\<close>

datatype Link =
    Bridge LinkAttrs
  | Macvtap LinkAttrs MacvlanMode
  | Tuntap LinkAttrs
  | Device LinkAttrs

fun Attrs :: "Link \<Rightarrow> LinkAttrs" where
  "Attrs (Bridge a) = a"
| "Attrs (Macvtap a m) = a"
| "Attrs (Tuntap a) = a"
| "Attrs (Device a) = a"

datatype Scope = SCOPE_UNIVERSE | SCOPE_SITE | SCOPE_LINK | SCOPE_HOST | SCOPE_NOWHERE

text \<open>\<open>netlink.Route\<close>; the zero value of \<open>Scope\<close> is \<open>SCOPE_UNIVERSE\<close>.\<close>

record netlink_Route =
  LinkIndex :: int
  Route_Scope :: Scope
  Route_Dst :: IPNet

record netlink_Addr =
  Addr_IPNet :: IPNet
  Addr_Label :: string

text \<open>\<open>cnitypes.Route\<close>, \<open>cnitypes.IPConfig\<close> and \<open>cnitypes.Result\<close>.\<close>

record cni_Route =
  Dst :: IPNet
  GW :: IP

record IPConfig =
  IPConfig_IP :: IPNet
  Gateway :: IP
  Routes :: "cni_Route list"

record cni_Result =
  Result_IP4 :: "IPConfig option"

text \<open>
  Errors. \<open>EEXIST\<close> and \<open>ENOENT\<close> are the two \<open>syscall.Errno\<close> values the code compares
  with; \<open>Foreign\<close> is any other error value made outside this file. \<open>Errorf t args\<close> is
  \<open>fmt.Errorf(t, args...)\<close> (and \<open>errors.New(t)\<close> when there is no argument), kept as the format
  and its arguments; \<open>Wrap outer inner\<close> is \<open>errwrap.Wrap(outer, inner)\<close>.
\<close>

datatype fmtarg = ArgStr string | ArgRoute netlink_Route

datatype error =
    EEXIST
  | ENOENT
  | Foreign string
  | Errorf string "fmtarg list"
  | Wrap error error

text \<open>A run-time panic of the Go program is a result of its own, distinct from a returned error.\<close>

datatype panic = IndexOutOfRange | NilDereference | TypeAssertion

datatype 'a result = Ok 'a | Err error | Panic panic

section \<open>Descriptors\<close>

text \<open>\<open>nettypes.NetConf\<close> (with the embedded \<open>cnitypes.NetConf\<close>), \<open>netinfo.NetInfo\<close> and
  \<open>nettypes.ActiveNet\<close>. \<open>Conf\<close> and \<open>Runtime\<close> are pointers in the source; every function below
  that writes through them returns the descriptor as it is after the call.\<close>

record NetConf =
  Conf_Name :: string
  Conf_Type :: string
  IPAM_Type :: string
  IPMasq :: bool
  MTU :: int

record NetInfo =
  IfName :: string
  Runtime_IP :: IP
  Runtime_Mask :: IP
  HostIP :: IP
  Runtime_IP4 :: "IPConfig option"

record ActiveNet =
  ConfBytes :: bytes
  Conf :: NetConf
  Runtime :: NetInfo

record ForwardedPort =
  Protocol :: string
  HostPort :: nat
  PodPort :: nat

text \<open>\<open>podEnv\<close>; \<open>podID\<close> is kept as the text \<open>podID.String()\<close> returns, 36 characters for
  every \<open>types.UUID\<close>, so that the slice \<open>[0:4]\<close> is always in range.\<close>

record podEnv =
  podRoot :: string
  podID :: string
  netsLoadList :: "string list"
  localConfig :: string

record Networking = podEnv +
  nets :: "ActiveNet list"

text \<open>
  A value of type \<open>interface{}\<close> in the delegate dictionary: what \<open>json.Unmarshal\<close> stores
  there (nil, bool, float64, string, slice, map) and what the transformer itself stores
  (an \<open>int\<close>, a slice of routes). A JSON number is kept as its literal; the program never
  computes with it.
\<close>

datatype any =
    VNil
  | VBool bool
  | VFloat64 string
  | VInt int
  | VString string
  | VRoutes "cni_Route list"
  | VList "any list"
  | VMap "string \<Rightarrow> any option"

type_synonym dict = "string \<Rightarrow> any option"

record BridgeNetConf = NetConf +
  BrName :: string
  IsGw :: bool

record MacVTapNetConf = NetConf +
  Master :: string
  Mode :: string

text \<open>\<open>Delegate\<close> is \<open>None\<close> for the nil map (no delegate in the configuration).\<close>

record FlannelNetConf = NetConf +
  SubnetFile :: string
  Delegate :: "dict option"

record subnetEnv =
  nw :: "IPNet option"
  sn :: "IPNet option"
  mtu :: int
  ipmasq :: bool

definition defaultBrName :: string where
  "defaultBrName = ''kvm-cni0''"

definition defaultSubnetFile :: string where
  "defaultSubnetFile = ''/run/flannel/subnet.env''"

definition defaultMTU :: int where
  "defaultMTU = 1500"

definition masqComment :: string where
  "masqComment = ''rkt-lkvm masquerading''"

text \<open>The zero values of the structs the code creates with an empty composite literal.\<close>

definition zero_NetConf :: NetConf where
  "zero_NetConf = \<lparr>Conf_Name = [], Conf_Type = [], IPAM_Type = [], IPMasq = False, MTU = 0\<rparr>"

definition zero_IPNet :: IPNet where
  "zero_IPNet = \<lparr>IPNet_IP = [], IPNet_Mask = []\<rparr>"

definition zero_IPConfig :: IPConfig where
  "zero_IPConfig = \<lparr>IPConfig_IP = zero_IPNet, Gateway = [], Routes = []\<rparr>"

definition zero_NetInfo :: NetInfo where
  "zero_NetInfo =
     \<lparr>IfName = [], Runtime_IP = [], Runtime_Mask = [], HostIP = [], Runtime_IP4 = None\<rparr>"

definition zero_subnetEnv :: subnetEnv where
  "zero_subnetEnv = \<lparr>nw = None, sn = None, mtu = 0, ipmasq = False\<rparr>"

section \<open>The host and the trace of calls\<close>

text \<open>
  Every call that leaves the program, and every line written to the log, is an event. The
  trace of a run is the list of its events in the order the program made them.
\<close>

datatype event =
    EvCreatePersistentIface string
  | EvRemovePersistentIface string
  | EvLinkByName string
  | EvLinkSetUp Link
  | EvLinkAdd Link
  | EvLinkDel Link
  | EvLinkSetMaster Link Link
  | EvAddrList Link
  | EvAddrAdd Link netlink_Addr
  | EvRouteList Link
  | EvRouteDel netlink_Route
  | EvRouteAdd netlink_Route
  | EvEnableIP4Forward
  | EvSetupIPMasq IPNet string string
  | EvTeardownIPMasq IPNet string string
  | EvExecNetPlugin string ActiveNet string
  | EvLoadNets
  | EvForwardPorts "ForwardedPort list" IP
  | EvUnforwardPorts
  | EvOpen string
  | EvPrintE string "fmtarg list" error
  | EvPrintf string "fmtarg list"

text \<open>
  The collaborators. \<open>'w\<close> is the state of everything outside the program (kernel, file
  system, plugins); a call takes it and returns it changed. The functions of the second group
  are pure functions of the Go standard library.

  \<^item> \<open>netlink_LinkAdd\<close> returns the link structure as the library leaves it (it may fill in
    the index).
  \<^item> \<open>netlink_AddrList\<close> returns both of its results, as the code reads the list after
    accepting \<open>ENOENT\<close>.
  \<^item> \<open>os_Open_Scan\<close> is \<open>os.Open\<close> followed by a \<open>bufio.Scanner\<close> over the file: the error
    of opening, or the lines the scanner yields and the scanner's own final error.
  \<^item> \<open>execNetPlugin\<close>, \<open>loadNets\<close>, \<open>forwardPorts\<close>, \<open>unforwardPorts\<close> and \<open>GetDefaultIP\<close> are
    methods of \<open>Networking\<close> and of the \<open>podEnv\<close> embedded in it, defined in other files of
    the package. \<open>execNetPlugin\<close> reads the descriptor it is given and returns the output of
    the plugin process.
  \<^item> \<open>json_Unmarshal_*\<close> decode into a structure that already holds default values, as
    \<open>json.Unmarshal\<close> does.
\<close>

record 'w host =
  tuntap_CreatePersistentIface :: "string \<Rightarrow> 'w \<Rightarrow> (error + string) \<times> 'w"
  tuntap_RemovePersistentIface :: "string \<Rightarrow> 'w \<Rightarrow> error option \<times> 'w"
  netlink_LinkByName :: "string \<Rightarrow> 'w \<Rightarrow> (error + Link) \<times> 'w"
  netlink_LinkSetUp :: "Link \<Rightarrow> 'w \<Rightarrow> error option \<times> 'w"
  netlink_LinkAdd :: "Link \<Rightarrow> 'w \<Rightarrow> (error + Link) \<times> 'w"
  netlink_LinkDel :: "Link \<Rightarrow> 'w \<Rightarrow> error option \<times> 'w"
  netlink_LinkSetMaster :: "Link \<Rightarrow> Link \<Rightarrow> 'w \<Rightarrow> error option \<times> 'w"
  netlink_AddrList :: "Link \<Rightarrow> 'w \<Rightarrow> (netlink_Addr list \<times> error option) \<times> 'w"
  netlink_AddrAdd :: "Link \<Rightarrow> netlink_Addr \<Rightarrow> 'w \<Rightarrow> error option \<times> 'w"
  netlink_RouteList :: "Link \<Rightarrow> 'w \<Rightarrow> (error + netlink_Route list) \<times> 'w"
  netlink_RouteDel :: "netlink_Route \<Rightarrow> 'w \<Rightarrow> error option \<times> 'w"
  netlink_RouteAdd :: "netlink_Route \<Rightarrow> 'w \<Rightarrow> error option \<times> 'w"
  ip_EnableIP4Forward :: "'w \<Rightarrow> error option \<times> 'w"
  ip_SetupIPMasq :: "IPNet \<Rightarrow> string \<Rightarrow> string \<Rightarrow> 'w \<Rightarrow> error option \<times> 'w"
  ip_TeardownIPMasq :: "IPNet \<Rightarrow> string \<Rightarrow> string \<Rightarrow> 'w \<Rightarrow> error option \<times> 'w"
  execNetPlugin :: "podEnv \<Rightarrow> string \<Rightarrow> ActiveNet \<Rightarrow> string \<Rightarrow> 'w \<Rightarrow> (error + bytes) \<times> 'w"
  loadNets :: "podEnv \<Rightarrow> 'w \<Rightarrow> (error + ActiveNet list) \<times> 'w"
  forwardPorts :: "Networking \<Rightarrow> ForwardedPort list \<Rightarrow> IP \<Rightarrow> 'w \<Rightarrow> error option \<times> 'w"
  unforwardPorts :: "Networking \<Rightarrow> 'w \<Rightarrow> error option \<times> 'w"
  GetDefaultIP :: "Networking \<Rightarrow> IP"
  os_Open_Scan :: "string \<Rightarrow> 'w \<Rightarrow> (error + string list \<times> error option) \<times> 'w"
  json_Unmarshal_Result :: "bytes \<Rightarrow> error + cni_Result"
  json_Unmarshal_BridgeNetConf :: "bytes \<Rightarrow> BridgeNetConf \<Rightarrow> error + BridgeNetConf"
  json_Unmarshal_MacVTapNetConf :: "bytes \<Rightarrow> MacVTapNetConf \<Rightarrow> error + MacVTapNetConf"
  json_Unmarshal_FlannelNetConf :: "bytes \<Rightarrow> FlannelNetConf \<Rightarrow> error + FlannelNetConf"
  json_Marshal :: "dict \<Rightarrow> error + bytes"
  net_ParseCIDR :: "string \<Rightarrow> error + IPNet"
  strconv_ParseUint :: "string \<Rightarrow> error + nat"
  IPNet_String :: "IPNet \<Rightarrow> string"
  sha512_Sum512 :: "string \<Rightarrow> nat list"

record 'w world =
  sys :: 'w
  trace :: "event list"

definition call :: "event \<Rightarrow> ('w \<Rightarrow> 'r \<times> 'w) \<Rightarrow> 'w world \<Rightarrow> 'r \<times> 'w world" where
  "call ev f w = (case f (sys w) of (r, s) \<Rightarrow> (r, \<lparr>sys = s, trace = trace w @ [ev]\<rparr>))"

definition logE :: "event \<Rightarrow> 'w world \<Rightarrow> 'w world" where
  "logE ev w = w\<lparr>trace := trace w @ [ev]\<rparr>"

section \<open>Devices\<close>

text \<open>\<open>setupTapDevice\<close>: a persistent tap device named after the pod, brought up.\<close>

definition setupTapDevice :: "'w host \<Rightarrow> string \<Rightarrow> 'w world \<Rightarrow> (error + Link) \<times> 'w world" where
  "setupTapDevice h pid w =
     (let nameTemplate = ''rkt-'' @ take 4 pid @ ''-tap%d'' in
      case call (EvCreatePersistentIface nameTemplate)
             (tuntap_CreatePersistentIface h nameTemplate) w of
        (Inl err, w1) \<Rightarrow> (Inl (Wrap (Errorf ''tuntap persist'' []) err), w1)
      | (Inr ifName, w1) \<Rightarrow>
          (case call (EvLinkByName ifName) (netlink_LinkByName h ifName) w1 of
             (Inl err, w2) \<Rightarrow>
               (Inl (Wrap (Errorf ''cannot find link %q'' [ArgStr ifName]) err), w2)
           | (Inr link, w2) \<Rightarrow>
               (case call (EvLinkSetUp link) (netlink_LinkSetUp h link) w2 of
                  (Some err, w3) \<Rightarrow>
                    (Inl (Wrap (Errorf ''cannot set link up %q'' [ArgStr ifName]) err), w3)
                | (None, w3) \<Rightarrow> (Inr link, w3))))"

text \<open>The \<open>switch\<close> on \<open>config.Mode\<close> of \<open>setupMacVTapDevice\<close>; \<open>None\<close> is its default branch.\<close>

definition macvlanMode :: "string \<Rightarrow> MacvlanMode option" where
  "macvlanMode m =
     (if m = [] \<or> m = ''bridge'' then Some MACVLAN_MODE_BRIDGE
      else if m = ''private'' then Some MACVLAN_MODE_PRIVATE
      else if m = ''vepa'' then Some MACVLAN_MODE_VEPA
      else if m = ''passthru'' then Some MACVLAN_MODE_PASSTHRU
      else None)"

text \<open>\<open>%d\<close> of \<open>fmt.Sprintf\<close> for the interface number, the position of the network in a
  slice.\<close>

function Itoa :: "nat \<Rightarrow> string" where
  "Itoa n =
     (if n < 10 then [''0123456789'' ! n] else Itoa (n div 10) @ [''0123456789'' ! (n mod 10)])"
  by pat_completeness auto
termination
  by (relation "measure id") auto

declare Itoa.simps [simp del]

text \<open>\<open>setupMacVTapDevice\<close>: the master is looked up first, then the mode is checked, then
  the link is added and brought up; a link that cannot be brought up is deleted again and the
  result of the deletion is dropped. (The format of the first error has single quotes around
  \<open>%v\<close>, left out here.)\<close>

definition setupMacVTapDevice ::
  "'w host \<Rightarrow> string \<Rightarrow> MacVTapNetConf \<Rightarrow> nat \<Rightarrow> 'w world \<Rightarrow> (error + Link) \<times> 'w world" where
  "setupMacVTapDevice h pid config interfaceNumber w =
     (case call (EvLinkByName (Master config)) (netlink_LinkByName h (Master config)) w of
        (Inl err, w1) \<Rightarrow>
          (Inl (Wrap (Errorf ''cannot find master device %v'' [ArgStr (Master config)]) err), w1)
      | (Inr master, w1) \<Rightarrow>
          (case macvlanMode (Mode config) of
             None \<Rightarrow> (Inl (Errorf ''unsupported macvtap mode: %v'' [ArgStr (Mode config)]), w1)
           | Some mode \<Rightarrow>
               (let mtu = (if MTU config \<noteq> 0 then MTU config else Attr_MTU (Attrs master));
                    interfaceName = ''rkt-'' @ take 4 pid @ ''-vtap'' @ Itoa interfaceNumber;
                    link = Macvtap
                      \<lparr>Attr_Name = interfaceName, Attr_MTU = mtu, Attr_Index = 0,
                       Attr_ParentIndex = Attr_Index (Attrs master)\<rparr> mode
                in case call (EvLinkAdd link) (netlink_LinkAdd h link) w1 of
                     (Inl err, w2) \<Rightarrow>
                       (Inl (Wrap (Errorf ''cannot create macvtap interface'' []) err), w2)
                   | (Inr link', w2) \<Rightarrow>
                       (case call (EvLinkSetUp link') (netlink_LinkSetUp h link') w2 of
                          (Some err, w3) \<Rightarrow>
                            (case call (EvLinkDel link') (netlink_LinkDel h link') w3 of
                               (_, w4) \<Rightarrow>
                                 (Inl (Wrap (Errorf ''cannot set up macvtap interface'' []) err),
                                  w4))
                        | (None, w3) \<Rightarrow> (Inr link', w3)))))"

section \<open>Addressing\<close>

text \<open>\<open>kvmSetupNetAddressing\<close>: the IPAM plugin is run through \<open>execNetPlugin\<close> with the type
  of the descriptor replaced by its IPAM type for the time of the call. The function returns
  its error and the descriptor as it leaves it.\<close>

definition kvmSetupNetAddressing ::
  "'w host \<Rightarrow> podEnv \<Rightarrow> ActiveNet \<Rightarrow> string \<Rightarrow> 'w world \<Rightarrow> (error option \<times> ActiveNet) \<times> 'w world"
  where
  "kvmSetupNetAddressing h network n ifName w =
     (case call EvEnableIP4Forward (ip_EnableIP4Forward h) w of
        (Some err, w1) \<Rightarrow> ((Some (Wrap (Errorf ''failed to enable forwarding'' []) err), n), w1)
      | (None, w1) \<Rightarrow>
          (let original_type = Conf_Type (Conf n);
               n1 = n\<lparr>Conf := (Conf n)\<lparr>Conf_Type := IPAM_Type (Conf n)\<rparr>\<rparr>
           in case call (EvExecNetPlugin ''ADD'' n1 ifName)
                     (execNetPlugin h network ''ADD'' n1 ifName) w1 of
                (r, w2) \<Rightarrow>
                  (let n2 = n1\<lparr>Conf := (Conf n1)\<lparr>Conf_Type := original_type\<rparr>\<rparr>
                   in case r of
                        Inl err \<Rightarrow>
                          ((Some (Wrap (Errorf ''problem executing network plugin %q (%q)''
                                          [ArgStr (Conf_Type (Conf n2)), ArgStr ifName]) err),
                            n2), w2)
                      | Inr output \<Rightarrow>
                          (case json_Unmarshal_Result h output of
                             Inl err \<Rightarrow>
                               ((Some (Wrap (Errorf ''error parsing %q result''
                                               [ArgStr (Conf_Name (Conf n2))]) err),
                                 n2), w2)
                           | Inr result \<Rightarrow>
                               (case Result_IP4 result of
                                  None \<Rightarrow>
                                    ((Some (Errorf ''net-plugin returned no IPv4 configuration'' []),
                                      n2), w2)
                                | Some ip4 \<Rightarrow>
                                    ((None,
                                      n2\<lparr>Runtime := (Runtime n2)
                                           \<lparr>Runtime_IP := IPNet_IP (IPConfig_IP ip4),
                                            Runtime_Mask := IPNet_Mask (IPConfig_IP ip4),
                                            HostIP := Gateway ip4,
                                            Runtime_IP4 := Some ip4\<rparr>\<rparr>), w2))))))"

text \<open>\<open>ensureHasAddr\<close>: \<open>ENOENT\<close> from the listing is accepted; an address is added only to a
  link that has none.\<close>

definition ensureHasAddr :: "'w host \<Rightarrow> Link \<Rightarrow> IPNet \<Rightarrow> 'w world \<Rightarrow> error option \<times> 'w world" where
  "ensureHasAddr h link ipn w =
     (case call (EvAddrList link) (netlink_AddrList h link) w of
        ((addrs, err), w1) \<Rightarrow>
          (case (case err of None \<Rightarrow> None | Some e \<Rightarrow> if e \<noteq> ENOENT then Some e else None) of
             Some e \<Rightarrow> (Some (Wrap (Errorf ''could not get list of IP addresses'' []) e), w1)
           | None \<Rightarrow>
               if length addrs > 0 then
                 (let ipnStr = IPNet_String h ipn in
                  if list_ex (\<lambda>a. IPNet_String h (Addr_IPNet a) = ipnStr) addrs then (None, w1)
                  else (Some (Errorf ''%q already has an IP address different from %v''
                                [ArgStr (Attr_Name (Attrs link)), ArgStr (IPNet_String h ipn)]),
                        w1))
               else
                 (let addr = \<lparr>Addr_IPNet = ipn, Addr_Label = Attr_Name (Attrs link)\<rparr> in
                  case call (EvAddrAdd link addr) (netlink_AddrAdd h link addr) w1 of
                    (Some e, w2) \<Rightarrow>
                      (Some (Wrap (Errorf ''could not add IP address to %q''
                                     [ArgStr (Attr_Name (Attrs link))]) e), w2)
                  | (None, w2) \<Rightarrow> (None, w2))))"

section \<open>The bridge\<close>

text \<open>\<open>bridgeByName\<close>: the type assertion \<open>l.(*netlink.Bridge)\<close> succeeds on a bridge only.\<close>

definition bridgeByName :: "'w host \<Rightarrow> string \<Rightarrow> 'w world \<Rightarrow> (error + Link) \<times> 'w world" where
  "bridgeByName h name w =
     (case call (EvLinkByName name) (netlink_LinkByName h name) w of
        (Inl err, w1) \<Rightarrow> (Inl (Wrap (Errorf ''could not lookup %q'' [ArgStr name]) err), w1)
      | (Inr l, w1) \<Rightarrow>
          (case l of
             Bridge a \<Rightarrow> (Inr l, w1)
           | _ \<Rightarrow> (Inl (Errorf ''%q already exists but is not a bridge'' [ArgStr name]), w1)))"

text \<open>\<open>ensureBridgeIsUp\<close>: add the bridge; on \<open>EEXIST\<close> take the link of that name, which must
  be a bridge; bring the result up.\<close>

definition ensureBridgeIsUp ::
  "'w host \<Rightarrow> string \<Rightarrow> int \<Rightarrow> 'w world \<Rightarrow> (error + Link) \<times> 'w world" where
  "ensureBridgeIsUp h brName m w =
     (let br = Bridge \<lparr>Attr_Name = brName, Attr_MTU = m, Attr_Index = 0, Attr_ParentIndex = 0\<rparr>
      in case (case call (EvLinkAdd br) (netlink_LinkAdd h br) w of
                 (Inr br', w1) \<Rightarrow> (Inr br', w1)
               | (Inl err, w1) \<Rightarrow>
                   if err \<noteq> EEXIST
                   then (Inl (Wrap (Errorf ''could not add %q'' [ArgStr brName]) err), w1)
                   else bridgeByName h brName w1) of
           (Inl err, w2) \<Rightarrow> (Inl err, w2)
         | (Inr br1, w2) \<Rightarrow>
             (case call (EvLinkSetUp br1) (netlink_LinkSetUp h br1) w2 of
                (Some err, w3) \<Rightarrow> (Inl err, w3)
              | (None, w3) \<Rightarrow> (Inr br1, w3)))"

section \<open>Routes\<close>

definition hostRoute :: "Link \<Rightarrow> IP \<Rightarrow> netlink_Route" where
  "hostRoute link podIP =
     \<lparr>LinkIndex = Attr_Index (Attrs link), Route_Scope = SCOPE_LINK,
      Route_Dst = \<lparr>IPNet_IP = podIP, IPNet_Mask = [255, 255, 255, 255]\<rparr>\<rparr>"

text \<open>\<open>addRoute\<close>: \<open>hostRoute\<close> is the composite literal it builds.\<close>

definition addRoute :: "'w host \<Rightarrow> Link \<Rightarrow> IP \<Rightarrow> 'w world \<Rightarrow> error option \<times> 'w world" where
  "addRoute h link podIP w =
     call (EvRouteAdd (hostRoute link podIP)) (netlink_RouteAdd h (hostRoute link podIP)) w"

text \<open>The loop of \<open>removeAllRoutesOnLink\<close>: it stops at the first deletion that fails.\<close>

fun delRoutes :: "'w host \<Rightarrow> netlink_Route list \<Rightarrow> 'w world \<Rightarrow> error option \<times> 'w world" where
  "delRoutes h [] w = (None, w)"
| "delRoutes h (route # routes) w =
     (case call (EvRouteDel route) (netlink_RouteDel h route) w of
        (Some err, w1) \<Rightarrow>
          (Some (Wrap (Errorf ''error in time of route removal for route %q'' [ArgRoute route])
                   err), w1)
      | (None, w1) \<Rightarrow> delRoutes h routes w1)"

definition removeAllRoutesOnLink :: "'w host \<Rightarrow> Link \<Rightarrow> 'w world \<Rightarrow> error option \<times> 'w world" where
  "removeAllRoutesOnLink h link w =
     (case call (EvRouteList link) (netlink_RouteList h link) w of
        (Inl err, w1) \<Rightarrow>
          (Some (Wrap (Errorf ''cannot list routes on link %q'' [ArgStr (Attr_Name (Attrs link))])
                   err), w1)
      | (Inr routes, w1) \<Rightarrow> delRoutes h routes w1)"

text \<open>\<open>getChainName\<close>: \<open>%x\<close> of the first eight bytes of the SHA-512 sum.\<close>

definition hexdigit :: "nat \<Rightarrow> char" where
  "hexdigit d = ''0123456789abcdef'' ! (d mod 16)"

definition hexbytes :: "nat list \<Rightarrow> string" where
  "hexbytes bs = concat (map (\<lambda>b. [hexdigit (b div 16), hexdigit b]) bs)"

definition getChainName :: "'w host \<Rightarrow> string \<Rightarrow> string \<Rightarrow> string" where
  "getChainName h podUUIDString confName =
     ''CNI-'' @ confName @ ''-'' @ hexbytes (take 8 (sha512_Sum512 h podUUIDString))"

section \<open>The flannel lease and the delegate\<close>

definition zero_FlannelNetConf :: FlannelNetConf where
  "zero_FlannelNetConf =
     \<lparr>Conf_Name = [], Conf_Type = [], IPAM_Type = [], IPMasq = False, MTU = 0,
      SubnetFile = [], Delegate = None\<rparr>"

definition loadFlannelNetConf :: "'w host \<Rightarrow> bytes \<Rightarrow> error + FlannelNetConf" where
  "loadFlannelNetConf h bs =
     (case json_Unmarshal_FlannelNetConf h bs
             (zero_FlannelNetConf\<lparr>SubnetFile := defaultSubnetFile\<rparr>) of
        Inl err \<Rightarrow> Inl (Wrap (Errorf ''failed to load netconf'' []) err)
      | Inr n \<Rightarrow> Inr n)"

text \<open>\<open>strings.SplitN(s, sep, 2)\<close> for a separator of one byte: the text before the first
  separator and the text after it, or the whole text alone when it has no separator.\<close>

definition SplitN :: "string \<Rightarrow> char \<Rightarrow> string list" where
  "SplitN s sep =
     (if sep \<in> set s
      then [takeWhile (\<lambda>c. c \<noteq> sep) s, tl (dropWhile (\<lambda>c. c \<noteq> sep) s)]
      else [s])"

text \<open>An index expression \<open>parts[i]\<close>: out of range it panics.\<close>

definition at :: "'a list \<Rightarrow> nat \<Rightarrow> 'a result" where
  "at xs i = (if i < length xs then Ok (xs ! i) else Panic IndexOutOfRange)"

text \<open>The body of the scanning loop of \<open>loadFlannelSubnetEnv\<close>, over the lines the scanner
  yields. \<open>parts[1]\<close> is read in each of the four recognised cases.\<close>

fun scanLines :: "'w host \<Rightarrow> string list \<Rightarrow> subnetEnv \<Rightarrow> subnetEnv result" where
  "scanLines h [] se = Ok se"
| "scanLines h (line # rest) se =
     (let parts = SplitN line CHR ''='' in
      case at parts 0 of
        Panic p \<Rightarrow> Panic p
      | Err e \<Rightarrow> Err e
      | Ok key \<Rightarrow>
          if key = ''FLANNEL_NETWORK'' then
            (case at parts 1 of
               Panic p \<Rightarrow> Panic p
             | Err e \<Rightarrow> Err e
             | Ok v \<Rightarrow>
                 (case net_ParseCIDR h v of
                    Inl err \<Rightarrow> Err err
                  | Inr n \<Rightarrow> scanLines h rest (se\<lparr>nw := Some n\<rparr>)))
          else if key = ''FLANNEL_SUBNET'' then
            (case at parts 1 of
               Panic p \<Rightarrow> Panic p
             | Err e \<Rightarrow> Err e
             | Ok v \<Rightarrow>
                 (case net_ParseCIDR h v of
                    Inl err \<Rightarrow> Err err
                  | Inr n \<Rightarrow> scanLines h rest (se\<lparr>sn := Some n\<rparr>)))
          else if key = ''FLANNEL_MTU'' then
            (case at parts 1 of
               Panic p \<Rightarrow> Panic p
             | Err e \<Rightarrow> Err e
             | Ok v \<Rightarrow>
                 (case strconv_ParseUint h v of
                    Inl err \<Rightarrow> Err err
                  | Inr m \<Rightarrow> scanLines h rest (se\<lparr>mtu := int m\<rparr>)))
          else if key = ''FLANNEL_IPMASQ'' then
            (case at parts 1 of
               Panic p \<Rightarrow> Panic p
             | Err e \<Rightarrow> Err e
             | Ok v \<Rightarrow> scanLines h rest (se\<lparr>ipmasq := (v = ''true'')\<rparr>))
          else scanLines h rest se)"

text \<open>\<open>loadFlannelSubnetEnv\<close>: open, scan, then look at the scanner's error.\<close>

definition loadFlannelSubnetEnv ::
  "'w host \<Rightarrow> string \<Rightarrow> 'w world \<Rightarrow> subnetEnv result \<times> 'w world" where
  "loadFlannelSubnetEnv h fn w =
     (case call (EvOpen fn) (os_Open_Scan h fn) w of
        (Inl err, w1) \<Rightarrow> (Err err, w1)
      | (Inr (lines, serr), w1) \<Rightarrow>
          (case scanLines h lines zero_subnetEnv of
             Ok se \<Rightarrow> (case serr of Some err \<Rightarrow> (Err err, w1) | None \<Rightarrow> (Ok se, w1))
           | Err e \<Rightarrow> (Err e, w1)
           | Panic p \<Rightarrow> (Panic p, w1)))"

definition hasKey :: "dict \<Rightarrow> string \<Rightarrow> bool" where
  "hasKey m k = (m k \<noteq> None)"

definition isString :: "any \<Rightarrow> bool" where
  "isString i = (case i of VString s \<Rightarrow> True | _ \<Rightarrow> False)"

text \<open>An index expression \<open>m[k]\<close> on a map: nil for a key that is not there.\<close>

definition index :: "dict \<Rightarrow> string \<Rightarrow> any" where
  "index m k = (case m k of None \<Rightarrow> VNil | Some v \<Rightarrow> v)"

text \<open>\<open>kvmTransformFlannelNetwork\<close>, first part: the checks on the delegate of the
  configuration (a nil map is replaced by an empty one).\<close>

definition checkDelegate :: "dict option \<Rightarrow> error + dict" where
  "checkDelegate d =
     (case d of
        None \<Rightarrow> Inr Map.empty
      | Some m \<Rightarrow>
          if hasKey m ''type'' \<and> \<not> isString (index m ''type'') then
            Inl (Errorf '''delegate' dictionary, if present, must have (string) 'type' field'' [])
          else if hasKey m ''name'' then
            Inl (Errorf '''delegate' dictionary must not have 'name' field, it'll be set by flannel'' [])
          else if hasKey m ''ipam'' then
            Inl (Errorf '''delegate' dictionary must not have 'ipam' field, it'll be set by flannel'' [])
          else Inr m)"

text \<open>Second part: the keys the transformer sets. The type assertion on \<open>type\<close> and the
  dereferences of the two networks of the lease can panic.\<close>

definition fillDelegate :: "'w host \<Rightarrow> FlannelNetConf \<Rightarrow> subnetEnv \<Rightarrow> dict \<Rightarrow> dict result" where
  "fillDelegate h n fenv m0 =
     (let m1 = m0(''name'' \<mapsto> VString (Conf_Name n));
          m2 = (if \<not> hasKey m1 ''type'' then m1(''type'' \<mapsto> VString ''bridge'') else m1);
          m3 = (if \<not> hasKey m2 ''ipMasq'' then m2(''ipMasq'' \<mapsto> VBool (\<not> ipmasq fenv)) else m2);
          m4 = (if \<not> hasKey m3 ''mtu'' then m3(''mtu'' \<mapsto> VInt (mtu fenv)) else m3)
      in case index m4 ''type'' of
           VString t \<Rightarrow>
             (let m5 = (if t = ''bridge'' \<and> \<not> hasKey m4 ''isGateway''
                        then m4(''isGateway'' \<mapsto> VBool True) else m4)
              in case sn fenv of
                   None \<Rightarrow> Panic NilDereference
                 | Some subnet \<Rightarrow>
                     (case nw fenv of
                        None \<Rightarrow> Panic NilDereference
                      | Some network \<Rightarrow>
                          Ok (m5(''ipam'' \<mapsto> VMap
                                [''type'' \<mapsto> VString ''host-local'',
                                 ''subnet'' \<mapsto> VString (IPNet_String h subnet),
                                 ''routes'' \<mapsto> VRoutes [\<lparr>Dst = network, GW = []\<rparr>]]))))
         | _ \<Rightarrow> Panic TypeAssertion)"

text \<open>Third part: the descriptor is replaced as a whole; its configuration is read back
  from the dictionary with three type assertions.\<close>

definition replaceNet :: "'w host \<Rightarrow> FlannelNetConf \<Rightarrow> dict \<Rightarrow> ActiveNet result" where
  "replaceNet h n m =
     (case json_Marshal h m of
        Inl err \<Rightarrow> Err (Wrap (Errorf ''error in marshaling generated network settings'' []) err)
      | Inr bs \<Rightarrow>
          (case index m ''type'' of
             VString t \<Rightarrow>
               (case index m ''ipMasq'' of
                  VBool b \<Rightarrow>
                    (case index m ''mtu'' of
                       VInt i \<Rightarrow>
                         Ok \<lparr>ConfBytes = bs,
                             Conf = zero_NetConf
                               \<lparr>Conf_Name := Conf_Name n, Conf_Type := t, IPMasq := b, MTU := i,
                                IPAM_Type := ''host-local''\<rparr>,
                             Runtime = zero_NetInfo\<lparr>Runtime_IP4 := Some zero_IPConfig\<rparr>\<rparr>
                     | _ \<Rightarrow> Panic TypeAssertion)
                | _ \<Rightarrow> Panic TypeAssertion)
           | _ \<Rightarrow> Panic TypeAssertion))"

text \<open>\<open>kvmTransformFlannelNetwork\<close>: the configuration is loaded, then the lease is read, and
  only then is the delegate checked. On an error the descriptor is left as it was.\<close>

definition kvmTransformFlannelNetwork ::
  "'w host \<Rightarrow> ActiveNet \<Rightarrow> 'w world \<Rightarrow> ActiveNet result \<times> 'w world" where
  "kvmTransformFlannelNetwork h net w =
     (case loadFlannelNetConf h (ConfBytes net) of
        Inl err \<Rightarrow> (Err err, w)
      | Inr n \<Rightarrow>
          (case loadFlannelSubnetEnv h (SubnetFile n) w of
             (Err err, w1) \<Rightarrow> (Err err, w1)
           | (Panic p, w1) \<Rightarrow> (Panic p, w1)
           | (Ok fenv, w1) \<Rightarrow>
               (case checkDelegate (Delegate n) of
                  Inl err \<Rightarrow> (Err err, w1)
                | Inr m0 \<Rightarrow>
                    (case fillDelegate h n fenv m0 of
                       Err err \<Rightarrow> (Err err, w1)
                     | Panic p \<Rightarrow> (Panic p, w1)
                     | Ok m \<Rightarrow> (replaceNet h n m, w1)))))"

section \<open>Setup\<close>

text \<open>The body of \<open>case "ptp"\<close> in \<open>kvmSetup\<close>.\<close>

definition kvmSetup_ptp ::
  "'w host \<Rightarrow> podEnv \<Rightarrow> ActiveNet \<Rightarrow> 'w world \<Rightarrow> ActiveNet result \<times> 'w world" where
  "kvmSetup_ptp h network n w =
     (case setupTapDevice h (podID network) w of
        (Inl err, w1) \<Rightarrow> (Err err, w1)
      | (Inr link, w1) \<Rightarrow>
          (let ifName = Attr_Name (Attrs link);
               n1 = n\<lparr>Runtime := (Runtime n)\<lparr>IfName := ifName\<rparr>\<rparr>
           in case kvmSetupNetAddressing h network n1 ifName w1 of
                ((Some err, n2), w2) \<Rightarrow> (Err err, w2)
              | ((None, n2), w2) \<Rightarrow>
                  (case Runtime_IP4 (Runtime n2) of
                     None \<Rightarrow> (Panic NilDereference, w2)
                   | Some ip4 \<Rightarrow>
                       (case ensureHasAddr h link
                               \<lparr>IPNet_IP = Gateway ip4, IPNet_Mask = Runtime_Mask (Runtime n2)\<rparr>
                               w2 of
                          (Some err, w3) \<Rightarrow>
                            (Err (Wrap (Errorf ''cannot add address to host tap device %q''
                                          [ArgStr ifName]) err), w3)
                        | (None, w3) \<Rightarrow>
                            (case removeAllRoutesOnLink h link w3 of
                               (Some err, w4) \<Rightarrow>
                                 (Err (Wrap (Errorf ''cannot remove route on host tap device %q''
                                               [ArgStr ifName]) err), w4)
                             | (None, w4) \<Rightarrow>
                                 (case addRoute h link (Runtime_IP (Runtime n2)) w4 of
                                    (Some err, w5) \<Rightarrow>
                                      (Err (Wrap (Errorf ''cannot add on host direct route to pod'' [])
                                              err), w5)
                                  | (None, w5) \<Rightarrow> (Ok n2, w5)))))))"

definition zero_BridgeNetConf :: BridgeNetConf where
  "zero_BridgeNetConf =
     \<lparr>Conf_Name = [], Conf_Type = [], IPAM_Type = [], IPMasq = False, MTU = 0,
      BrName = [], IsGw = False\<rparr>"

text \<open>The body of \<open>case "bridge"\<close>. When the tap device cannot be attached to the bridge,
  the interface removed is the one named by \<open>n.Runtime.IfName\<close>, which is assigned only later.\<close>

definition kvmSetup_bridge ::
  "'w host \<Rightarrow> podEnv \<Rightarrow> ActiveNet \<Rightarrow> 'w world \<Rightarrow> ActiveNet result \<times> 'w world" where
  "kvmSetup_bridge h network n w =
     (case json_Unmarshal_BridgeNetConf h (ConfBytes n)
             (zero_BridgeNetConf\<lparr>MTU := defaultMTU, BrName := defaultBrName\<rparr>) of
        Inl err \<Rightarrow>
          (Err (Wrap (Errorf ''error parsing %q result'' [ArgStr (Conf_Name (Conf n))]) err), w)
      | Inr config \<Rightarrow>
          (case ensureBridgeIsUp h (BrName config) (MTU config) w of
             (Inl err, w1) \<Rightarrow> (Err (Wrap (Errorf ''error in time of bridge setup'' []) err), w1)
           | (Inr br, w1) \<Rightarrow>
               (case setupTapDevice h (podID network) w1 of
                  (Inl err, w2) \<Rightarrow> (Err (Wrap (Errorf ''can not setup tap device'' []) err), w2)
                | (Inr link, w2) \<Rightarrow>
                    (case call (EvLinkSetMaster link br) (netlink_LinkSetMaster h link br) w2 of
                       (Some err, w3) \<Rightarrow>
                         (case call (EvRemovePersistentIface (IfName (Runtime n)))
                                 (tuntap_RemovePersistentIface h (IfName (Runtime n))) w3 of
                            (rErr, w4) \<Rightarrow>
                              (Err (Wrap (Errorf ''can not add tap interface to bridge'' []) err),
                               (case rErr of
                                  Some e \<Rightarrow>
                                    logE (EvPrintE ''warning: could not cleanup tap interface'' [] e) w4
                                | None \<Rightarrow> w4)))
                     | (None, w3) \<Rightarrow>
                         (let ifName = Attr_Name (Attrs link);
                              n1 = n\<lparr>Runtime := (Runtime n)\<lparr>IfName := ifName\<rparr>\<rparr>
                          in case kvmSetupNetAddressing h network n1 ifName w3 of
                               ((Some err, n2), w4) \<Rightarrow> (Err err, w4)
                             | ((None, n2), w4) \<Rightarrow>
                                 if IsGw config then
                                   (case Runtime_IP4 (Runtime n2) of
                                      None \<Rightarrow> (Panic NilDereference, w4)
                                    | Some ip4 \<Rightarrow>
                                        (case ensureHasAddr h br
                                                \<lparr>IPNet_IP = Gateway ip4,
                                                 IPNet_Mask = Runtime_Mask (Runtime n2)\<rparr> w4 of
                                           (Some err, w5) \<Rightarrow>
                                             (Err (Wrap (Errorf
                                                     ''cannot add address to host bridge device %q''
                                                     [ArgStr (Attr_Name (Attrs br))]) err), w5)
                                         | (None, w5) \<Rightarrow> (Ok n2, w5)))
                                 else (Ok n2, w4))))))"

definition zero_MacVTapNetConf :: MacVTapNetConf where
  "zero_MacVTapNetConf =
     \<lparr>Conf_Name = [], Conf_Type = [], IPAM_Type = [], IPMasq = False, MTU = 0,
      Master = [], Mode = []\<rparr>"

text \<open>The body of \<open>case "macvlan"\<close>; \<open>i\<close> is the position of the network.\<close>

definition kvmSetup_macvlan ::
  "'w host \<Rightarrow> podEnv \<Rightarrow> nat \<Rightarrow> ActiveNet \<Rightarrow> 'w world \<Rightarrow> ActiveNet result \<times> 'w world" where
  "kvmSetup_macvlan h network i n w =
     (case json_Unmarshal_MacVTapNetConf h (ConfBytes n) zero_MacVTapNetConf of
        Inl err \<Rightarrow>
          (Err (Wrap (Errorf ''error parsing %q result'' [ArgStr (Conf_Name (Conf n))]) err), w)
      | Inr config \<Rightarrow>
          (case setupMacVTapDevice h (podID network) config i w of
             (Inl err, w1) \<Rightarrow> (Err err, w1)
           | (Inr link, w1) \<Rightarrow>
               (let ifName = Attr_Name (Attrs link);
                    n1 = n\<lparr>Runtime := (Runtime n)\<lparr>IfName := ifName\<rparr>\<rparr>
                in case kvmSetupNetAddressing h network n1 ifName w1 of
                     ((Some err, n2), w2) \<Rightarrow> (Err err, w2)
                   | ((None, n2), w2) \<Rightarrow> (Ok n2, w2))))"

text \<open>The \<open>switch\<close> on the type of the network.\<close>

definition kvmSetup_switch ::
  "'w host \<Rightarrow> podEnv \<Rightarrow> nat \<Rightarrow> ActiveNet \<Rightarrow> 'w world \<Rightarrow> ActiveNet result \<times> 'w world" where
  "kvmSetup_switch h network i n w =
     (if Conf_Type (Conf n) = ''ptp'' then kvmSetup_ptp h network n w
      else if Conf_Type (Conf n) = ''bridge'' then kvmSetup_bridge h network n w
      else if Conf_Type (Conf n) = ''macvlan'' then kvmSetup_macvlan h network i n w
      else (Err (Errorf ''network %q have unsupported type: %q''
                   [ArgStr (Conf_Name (Conf n)), ArgStr (Conf_Type (Conf n))]), w))"

text \<open>One round of the loop of \<open>kvmSetup\<close>: the flannel transformation, the switch, the
  masquerading rule.\<close>

definition kvmSetupNet ::
  "'w host \<Rightarrow> podEnv \<Rightarrow> nat \<Rightarrow> ActiveNet \<Rightarrow> 'w world \<Rightarrow> ActiveNet result \<times> 'w world" where
  "kvmSetupNet h network i n w =
     (case (if Conf_Type (Conf n) = ''flannel'' then kvmTransformFlannelNetwork h n w
            else (Ok n, w)) of
        (Err err, w1) \<Rightarrow>
          (Err (Wrap (Errorf ''cannot transform flannel network into basic network'' []) err), w1)
      | (Panic p, w1) \<Rightarrow> (Panic p, w1)
      | (Ok n1, w1) \<Rightarrow>
          (case kvmSetup_switch h network i n1 w1 of
             (Err err, w2) \<Rightarrow> (Err err, w2)
           | (Panic p, w2) \<Rightarrow> (Panic p, w2)
           | (Ok n2, w2) \<Rightarrow>
               if IPMasq (Conf n2) then
                 (let chain = getChainName h (podID network) (Conf_Name (Conf n2));
                      ipn = \<lparr>IPNet_IP = Runtime_IP (Runtime n2),
                             IPNet_Mask = Runtime_Mask (Runtime n2)\<rparr>
                  in case call (EvSetupIPMasq ipn chain masqComment)
                            (ip_SetupIPMasq h ipn chain masqComment) w2 of
                       (Some err, w3) \<Rightarrow> (Err err, w3)
                     | (None, w3) \<Rightarrow> (Ok n2, w3))
               else (Ok n2, w2)))"

text \<open>The loop over the networks, from position \<open>i\<close> on; it returns at the first error.\<close>

fun kvmSetupNets ::
  "'w host \<Rightarrow> podEnv \<Rightarrow> nat \<Rightarrow> ActiveNet list \<Rightarrow> 'w world \<Rightarrow> ActiveNet list result \<times> 'w world"
  where
  "kvmSetupNets h network i [] w = (Ok [], w)"
| "kvmSetupNets h network i (n # ns) w =
     (case kvmSetupNet h network i n w of
        (Err err, w1) \<Rightarrow> (Err err, w1)
      | (Panic p, w1) \<Rightarrow> (Panic p, w1)
      | (Ok n', w1) \<Rightarrow>
          (case kvmSetupNets h network (Suc i) ns w1 of
             (Err err, w2) \<Rightarrow> (Err err, w2)
           | (Panic p, w2) \<Rightarrow> (Panic p, w2)
           | (Ok ns', w2) \<Rightarrow> (Ok (n' # ns'), w2)))"

definition kvmSetup ::
  "'w host \<Rightarrow> string \<Rightarrow> string \<Rightarrow> ForwardedPort list \<Rightarrow> string list \<Rightarrow> string \<Rightarrow> 'w world
     \<Rightarrow> Networking result \<times> 'w world" where
  "kvmSetup h root pid fps netList config w =
     (let env = \<lparr>podRoot = root, podID = pid, netsLoadList = netList, localConfig = config\<rparr>
      in case call EvLoadNets (loadNets h env) w of
           (Inl e, w1) \<Rightarrow> (Err (Wrap (Errorf ''error loading network definitions'' []) e), w1)
         | (Inr ns, w1) \<Rightarrow>
             (case kvmSetupNets h env 0 ns w1 of
                (Err err, w2) \<Rightarrow> (Err err, w2)
              | (Panic p, w2) \<Rightarrow> (Panic p, w2)
              | (Ok ns', w2) \<Rightarrow>
                  (let network = \<lparr>podRoot = root, podID = pid, netsLoadList = netList,
                                  localConfig = config, nets = ns'\<rparr>
                   in case call (EvForwardPorts fps (GetDefaultIP h network))
                             (forwardPorts h network fps (GetDefaultIP h network)) w2 of
                        (Some err, w3) \<Rightarrow> (Err err, w3)
                      | (None, w3) \<Rightarrow> (Ok network, w3))))"

section \<open>Teardown\<close>

text \<open>The end of a round of the loop of \<open>teardownKvmNets\<close>, reached when the device was
  removed: the type of the descriptor is set to its IPAM type, the plugin is run with
  \<open>DEL\<close>, the masquerading rule is removed. The descriptor is returned as the round leaves it.\<close>

definition teardownRelease ::
  "'w host \<Rightarrow> Networking \<Rightarrow> ActiveNet \<Rightarrow> 'w world \<Rightarrow> ActiveNet \<times> 'w world" where
  "teardownRelease h n an w =
     (let an1 = an\<lparr>Conf := (Conf an)\<lparr>Conf_Type := IPAM_Type (Conf an)\<rparr>\<rparr>
      in case call (EvExecNetPlugin ''DEL'' an1 (IfName (Runtime an1)))
                (execNetPlugin h (podEnv.truncate n) ''DEL'' an1 (IfName (Runtime an1))) w of
           (r, w1) \<Rightarrow>
             (let w2 = (case r of
                          Inl err \<Rightarrow> logE (EvPrintE ''error executing network plugin'' [] err) w1
                        | Inr out \<Rightarrow> w1)
              in if IPMasq (Conf an1) then
                   (let chain = getChainName h (podID n) (Conf_Name (Conf an1));
                        ipn = \<lparr>IPNet_IP = Runtime_IP (Runtime an1),
                               IPNet_Mask = Runtime_Mask (Runtime an1)\<rparr>
                    in case call (EvTeardownIPMasq ipn chain masqComment)
                              (ip_TeardownIPMasq h ipn chain masqComment) w2 of
                         (Some err, w3) \<Rightarrow>
                           (an1, logE (EvPrintE ''error on removing masquerading'' [] err) w3)
                       | (None, w3) \<Rightarrow> (an1, w3))
                 else (an1, w2)))"

text \<open>One round of the loop: the \<open>switch\<close> on the type; each \<open>continue\<close> ends the round.\<close>

definition teardownKvmNet ::
  "'w host \<Rightarrow> Networking \<Rightarrow> ActiveNet \<Rightarrow> 'w world \<Rightarrow> ActiveNet \<times> 'w world" where
  "teardownKvmNet h n an w =
     (if Conf_Type (Conf an) = ''ptp'' \<or> Conf_Type (Conf an) = ''bridge'' then
        (case call (EvRemovePersistentIface (IfName (Runtime an)))
                (tuntap_RemovePersistentIface h (IfName (Runtime an))) w of
           (r, w1) \<Rightarrow> teardownRelease h n an w1)
      else if Conf_Type (Conf an) = ''macvlan'' then
        (case call (EvLinkByName (IfName (Runtime an)))
                (netlink_LinkByName h (IfName (Runtime an))) w of
           (Inl err, w1) \<Rightarrow>
             (an, logE (EvPrintE ''cannot find link `%v`'' [ArgStr (IfName (Runtime an))] err) w1)
         | (Inr link, w1) \<Rightarrow>
             (case call (EvLinkDel link) (netlink_LinkDel h link) w1 of
                (Some err, w2) \<Rightarrow>
                  (an, logE (EvPrintE ''cannot remove link `%v`'' [ArgStr (IfName (Runtime an))] err)
                         w2)
              | (None, w2) \<Rightarrow> teardownRelease h n an w2))
      else (an, logE (EvPrintf ''unsupported network type: %q'' [ArgStr (Conf_Type (Conf an))]) w))"

fun teardownLoop ::
  "'w host \<Rightarrow> Networking \<Rightarrow> ActiveNet list \<Rightarrow> 'w world \<Rightarrow> ActiveNet list \<times> 'w world" where
  "teardownLoop h n [] w = ([], w)"
| "teardownLoop h n (an # ans) w =
     (case teardownKvmNet h n an w of
        (an', w1) \<Rightarrow> (case teardownLoop h n ans w1 of (ans', w2) \<Rightarrow> (an' # ans', w2)))"

text \<open>\<open>teardownKvmNets\<close> has no result; what is returned here is the aggregate with its
  descriptors as the loop leaves them.\<close>

definition teardownKvmNets :: "'w host \<Rightarrow> Networking \<Rightarrow> 'w world \<Rightarrow> Networking \<times> 'w world" where
  "teardownKvmNets h n w = (case teardownLoop h n (nets n) w of (ans, w1) \<Rightarrow> (n\<lparr>nets := ans\<rparr>, w1))"

definition kvmTeardown :: "'w host \<Rightarrow> Networking \<Rightarrow> 'w world \<Rightarrow> Networking \<times> 'w world" where
  "kvmTeardown h n w =
     (case call EvUnforwardPorts (unforwardPorts h n) w of
        (Some err, w1) \<Rightarrow>
          teardownKvmNets h n (logE (EvPrintE ''error removing forwarded ports (kvm)'' [] err) w1)
      | (None, w1) \<Rightarrow> teardownKvmNets h n w1)"

section \<open>A host to run the program on\<close>

text \<open>
  A small deterministic host, used to run the functions above on concrete inputs. Its kernel
  keeps a list of links, the addresses and routes on them, and the files of the file system.
  A name can be taken by one link only: adding a second link of that name fails with
  \<open>EEXIST\<close>. The standard-library functions are given for IPv4 in dotted decimal notation;
  the plugins, the decoders of JSON and the methods of the package defined in other files
  answer with fixed values.
\<close>

record kernel =
  k_links :: "Link list"
  k_addrs :: "(string \<times> netlink_Addr) list"
  k_routes :: "netlink_Route list"
  k_files :: "(string \<times> string list) list"

definition named :: "string \<Rightarrow> Link \<Rightarrow> bool" where
  "named name l = (Attr_Name (Attrs l) = name)"

fun setIndex :: "int \<Rightarrow> Link \<Rightarrow> Link" where
  "setIndex i (Bridge a) = Bridge (a\<lparr>Attr_Index := i\<rparr>)"
| "setIndex i (Macvtap a m) = Macvtap (a\<lparr>Attr_Index := i\<rparr>) m"
| "setIndex i (Tuntap a) = Tuntap (a\<lparr>Attr_Index := i\<rparr>)"
| "setIndex i (Device a) = Device (a\<lparr>Attr_Index := i\<rparr>)"

definition freshIndex :: "kernel \<Rightarrow> int" where
  "freshIndex k = 1 + fold max (map (\<lambda>l. Attr_Index (Attrs l)) (k_links k)) 0"

definition k_LinkByName :: "string \<Rightarrow> kernel \<Rightarrow> (error + Link) \<times> kernel" where
  "k_LinkByName name k =
     (case find (named name) (k_links k) of
        None \<Rightarrow> (Inl (Foreign ''Link not found''), k)
      | Some l \<Rightarrow> (Inr l, k))"

definition k_LinkAdd :: "Link \<Rightarrow> kernel \<Rightarrow> (error + Link) \<times> kernel" where
  "k_LinkAdd l k =
     (if list_ex (named (Attr_Name (Attrs l))) (k_links k) then (Inl EEXIST, k)
      else (Inr (setIndex (freshIndex k) l),
            k\<lparr>k_links := k_links k @ [setIndex (freshIndex k) l]\<rparr>))"

definition k_LinkDel :: "Link \<Rightarrow> kernel \<Rightarrow> error option \<times> kernel" where
  "k_LinkDel l k =
     (if list_ex (named (Attr_Name (Attrs l))) (k_links k)
      then (None, k\<lparr>k_links := filter (\<lambda>x. \<not> named (Attr_Name (Attrs l)) x) (k_links k)\<rparr>)
      else (Some (Foreign ''no such device''), k))"

definition k_LinkSetUp :: "Link \<Rightarrow> kernel \<Rightarrow> error option \<times> kernel" where
  "k_LinkSetUp l k =
     (if list_ex (named (Attr_Name (Attrs l))) (k_links k) then (None, k)
      else (Some (Foreign ''no such device''), k))"

definition k_CreatePersistentIface :: "string \<Rightarrow> kernel \<Rightarrow> (error + string) \<times> kernel" where
  "k_CreatePersistentIface nameTemplate k =
     (let name = takeWhile (\<lambda>c. c \<noteq> CHR ''%'') nameTemplate @ Itoa (length (k_links k));
          l = Tuntap \<lparr>Attr_Name = name, Attr_MTU = 1500, Attr_Index = freshIndex k,
                      Attr_ParentIndex = 0\<rparr>
      in (Inr name, k\<lparr>k_links := k_links k @ [l]\<rparr>))"

definition k_RemovePersistentIface :: "string \<Rightarrow> kernel \<Rightarrow> error option \<times> kernel" where
  "k_RemovePersistentIface name k =
     (if list_ex (named name) (k_links k)
      then (None, k\<lparr>k_links := filter (\<lambda>x. \<not> named name x) (k_links k)\<rparr>)
      else (Some (Foreign ''no such device''), k))"

definition k_AddrList :: "Link \<Rightarrow> kernel \<Rightarrow> (netlink_Addr list \<times> error option) \<times> kernel" where
  "k_AddrList l k =
     ((map snd (filter (\<lambda>p. fst p = Attr_Name (Attrs l)) (k_addrs k)), None), k)"

definition k_AddrAdd :: "Link \<Rightarrow> netlink_Addr \<Rightarrow> kernel \<Rightarrow> error option \<times> kernel" where
  "k_AddrAdd l a k = (None, k\<lparr>k_addrs := k_addrs k @ [(Attr_Name (Attrs l), a)]\<rparr>)"

definition k_RouteList :: "Link \<Rightarrow> kernel \<Rightarrow> (error + netlink_Route list) \<times> kernel" where
  "k_RouteList l k = (Inr (filter (\<lambda>r. LinkIndex r = Attr_Index (Attrs l)) (k_routes k)), k)"

definition k_RouteDel :: "netlink_Route \<Rightarrow> kernel \<Rightarrow> error option \<times> kernel" where
  "k_RouteDel r k =
     (if r \<in> set (k_routes k) then (None, k\<lparr>k_routes := removeAll r (k_routes k)\<rparr>)
      else (Some (Foreign ''no such process''), k))"

definition k_RouteAdd :: "netlink_Route \<Rightarrow> kernel \<Rightarrow> error option \<times> kernel" where
  "k_RouteAdd r k =
     (if r \<in> set (k_routes k) then (Some EEXIST, k)
      else (None, k\<lparr>k_routes := k_routes k @ [r]\<rparr>))"

definition k_Open_Scan :: "string \<Rightarrow> kernel \<Rightarrow> (error + string list \<times> error option) \<times> kernel"
  where
  "k_Open_Scan fn k =
     (case map_of (k_files k) fn of
        None \<Rightarrow> (Inl (Foreign ''no such file or directory''), k)
      | Some ls \<Rightarrow> (Inr (ls, None), k))"

text \<open>Decimal numbers, dotted addresses and CIDR notation for IPv4.\<close>

definition digitVal :: "char \<Rightarrow> nat option" where
  "digitVal c = map_of (zip ''0123456789'' [0, 1, 2, 3, 4, 5, 6, 7, 8, 9]) c"

definition parseDec :: "string \<Rightarrow> nat option" where
  "parseDec s =
     (if s = [] then None
      else fold (\<lambda>c acc. case (acc, digitVal c) of
                           (Some a, Some d) \<Rightarrow> Some (10 * a + d)
                         | _ \<Rightarrow> None) s (Some 0))"

fun splitAll :: "char \<Rightarrow> string \<Rightarrow> string \<Rightarrow> string list" where
  "splitAll sep acc [] = [rev acc]"
| "splitAll sep acc (c # cs) =
     (if c = sep then rev acc # splitAll sep [] cs else splitAll sep (c # acc) cs)"

definition parseIPv4 :: "string \<Rightarrow> IP option" where
  "parseIPv4 s =
     (case map parseDec (splitAll CHR ''.'' [] s) of
        [Some a, Some b, Some c, Some d] \<Rightarrow>
          if a \<le> 255 \<and> b \<le> 255 \<and> c \<le> 255 \<and> d \<le> 255 then Some [a, b, c, d] else None
      | _ \<Rightarrow> None)"

definition maskByte :: "nat \<Rightarrow> nat" where
  "maskByte ones = 256 - 2 ^ (8 - min 8 ones)"

definition CIDRMask :: "nat \<Rightarrow> IP" where
  "CIDRMask n = [maskByte n, maskByte (n - 8), maskByte (n - 16), maskByte (n - 24)]"

text \<open>The bytes are masked arithmetically: \<open>b AND m = b - b mod (256 - m)\<close> for a mask byte
  \<open>m\<close> of leading ones.\<close>

definition k_ParseCIDR :: "string \<Rightarrow> error + IPNet" where
  "k_ParseCIDR s =
     (case SplitN s CHR ''/'' of
        [addr, bits] \<Rightarrow>
          (case (parseIPv4 addr, parseDec bits) of
             (Some ip, Some n) \<Rightarrow>
               if n \<le> 32
               then Inr \<lparr>IPNet_IP = map2 (\<lambda>b m. b - b mod (256 - m)) ip (CIDRMask n),
                         IPNet_Mask = CIDRMask n\<rparr>
               else Inl (Foreign ''invalid CIDR address'')
           | _ \<Rightarrow> Inl (Foreign ''invalid CIDR address''))
      | _ \<Rightarrow> Inl (Foreign ''invalid CIDR address''))"

definition k_ParseUint :: "string \<Rightarrow> error + nat" where
  "k_ParseUint s =
     (case parseDec s of
        None \<Rightarrow> Inl (Foreign ''invalid syntax'')
      | Some n \<Rightarrow> if n < 4294967296 then Inr n else Inl (Foreign ''value out of range''))"

definition onesOf :: "nat \<Rightarrow> nat" where
  "onesOf m = length (filter (\<lambda>k. maskByte k \<le> m) [1, 2, 3, 4, 5, 6, 7, 8])"

definition dotted :: "IP \<Rightarrow> string" where
  "dotted ip = (case map Itoa ip of [] \<Rightarrow> [] | x # xs \<Rightarrow> x @ concat (map (\<lambda>y. ''.'' @ y) xs))"

definition k_IPNet_String :: "IPNet \<Rightarrow> string" where
  "k_IPNet_String ipn = dotted (IPNet_IP ipn) @ ''/'' @ Itoa (sum_list (map onesOf (IPNet_Mask ipn)))"

text \<open>The result every IPAM plugin of this host prints, once decoded.\<close>

definition ipamResult :: cni_Result where
  "ipamResult =
     \<lparr>Result_IP4 = Some
        \<lparr>IPConfig_IP = \<lparr>IPNet_IP = [10, 1, 17, 2], IPNet_Mask = [255, 255, 255, 0]\<rparr>,
         Gateway = [10, 1, 17, 1], Routes = []\<rparr>\<rparr>"

definition refhost :: "kernel host" where
  "refhost =
     \<lparr>tuntap_CreatePersistentIface = k_CreatePersistentIface,
      tuntap_RemovePersistentIface = k_RemovePersistentIface,
      netlink_LinkByName = k_LinkByName,
      netlink_LinkSetUp = k_LinkSetUp,
      netlink_LinkAdd = k_LinkAdd,
      netlink_LinkDel = k_LinkDel,
      netlink_LinkSetMaster = (\<lambda>l br k. (None, k)),
      netlink_AddrList = k_AddrList,
      netlink_AddrAdd = k_AddrAdd,
      netlink_RouteList = k_RouteList,
      netlink_RouteDel = k_RouteDel,
      netlink_RouteAdd = k_RouteAdd,
      ip_EnableIP4Forward = (\<lambda>k. (None, k)),
      ip_SetupIPMasq = (\<lambda>ipn chain comment k. (None, k)),
      ip_TeardownIPMasq = (\<lambda>ipn chain comment k. (None, k)),
      execNetPlugin = (\<lambda>env cmd n ifName k. (Inr ''ipam-result'', k)),
      loadNets = (\<lambda>env k. (Inr [], k)),
      forwardPorts = (\<lambda>n fps ip k. (None, k)),
      unforwardPorts = (\<lambda>n k. (None, k)),
      GetDefaultIP = (\<lambda>n. case nets n of [] \<Rightarrow> [] | a # as \<Rightarrow> Runtime_IP (Runtime a)),
      os_Open_Scan = k_Open_Scan,
      json_Unmarshal_Result =
        (\<lambda>b. if b = ''ipam-result'' then Inr ipamResult else Inl (Foreign ''invalid character'')),
      json_Unmarshal_BridgeNetConf = (\<lambda>b c. Inr c),
      json_Unmarshal_MacVTapNetConf = (\<lambda>b c. Inr c),
      json_Unmarshal_FlannelNetConf = (\<lambda>b c. Inr c),
      json_Marshal = (\<lambda>m. Inr ''delegate''),
      net_ParseCIDR = k_ParseCIDR,
      strconv_ParseUint = k_ParseUint,
      IPNet_String = k_IPNet_String,
      sha512_Sum512 = (\<lambda>s. replicate 64 0)\<rparr>"

definition emptyKernel :: kernel where
  "emptyKernel = \<lparr>k_links = [], k_addrs = [], k_routes = [], k_files = []\<rparr>"

definition start :: "kernel \<Rightarrow> kernel world" where
  "start k = \<lparr>sys = k, trace = []\<rparr>"

section \<open>Hosts and descriptors of the examples\<close>

text \<open>A host whose kernel has the device \<open>eth0\<close>, a macvlan configuration on it, and a host
  on which no link can be brought up.\<close>

definition eth0 :: Link where
  "eth0 = Device \<lparr>Attr_Name = ''eth0'', Attr_MTU = 1500, Attr_Index = 1, Attr_ParentIndex = 0\<rparr>"

definition withEth0 :: kernel where
  "withEth0 = emptyKernel\<lparr>k_links := [eth0]\<rparr>"

definition macvtapConf :: "string \<Rightarrow> MacVTapNetConf" where
  "macvtapConf m = zero_MacVTapNetConf\<lparr>Master := ''eth0'', Mode := m\<rparr>"

definition cannotBringUp :: "kernel host" where
  "cannotBringUp =
     refhost\<lparr>netlink_LinkSetUp := (\<lambda>l k. (Some (Foreign ''operation not permitted''), k))\<rparr>"

text \<open>A host on which a link can neither be brought up nor deleted.\<close>

definition cannotDelete :: "kernel host" where
  "cannotDelete =
     cannotBringUp\<lparr>netlink_LinkDel := (\<lambda>l k. (Some (Foreign ''device or resource busy''), k))\<rparr>"

definition vtap0 :: "int \<Rightarrow> Link" where
  "vtap0 i = Macvtap \<lparr>Attr_Name = ''rkt-0123-vtap0'', Attr_MTU = 1500, Attr_Index = i,
                      Attr_ParentIndex = 1\<rparr> MACVLAN_MODE_VEPA"

text \<open>A lease file whose only line is a recognised key without the separator.\<close>

definition leaseWithoutSeparator :: kernel where
  "leaseWithoutSeparator = emptyKernel\<lparr>k_files := [(defaultSubnetFile, [''FLANNEL_MTU''])]\<rparr>"

text \<open>The pod of the examples and a ptp descriptor as \<open>loadNets\<close> would produce it.\<close>

definition pod :: podEnv where
  "pod = \<lparr>podRoot = ''/pod'', podID = ''0123abcd-0000-0000-0000-000000000000'',
          netsLoadList = [], localConfig = ''/etc/rkt''\<rparr>"

definition netOf :: "string \<Rightarrow> ActiveNet" where
  "netOf t =
     \<lparr>ConfBytes = ''conf'',
      Conf = zero_NetConf\<lparr>Conf_Name := ''net0'', Conf_Type := t, IPAM_Type := ''host-local''\<rparr>,
      Runtime = zero_NetInfo\<rparr>"

text \<open>A host whose IPAM plugin prints a result without an IPv4 block.\<close>

definition noIP4 :: "kernel host" where
  "noIP4 = refhost\<lparr>json_Unmarshal_Result := (\<lambda>b. Inr \<lparr>Result_IP4 = None\<rparr>)\<rparr>"

definition podNetworking :: "ActiveNet list \<Rightarrow> Networking" where
  "podNetworking ns = podEnv.extend pod \<lparr>nets = ns\<rparr>"

definition isBridge :: "Link \<Rightarrow> bool" where
  "isBridge l = (case l of Bridge a \<Rightarrow> True | _ \<Rightarrow> False)"

text \<open>The bridge structure \<open>ensureBridgeIsUp\<close> passes to \<open>LinkAdd\<close>, the bridge the reference
  kernel makes of it on an empty kernel, and a kernel where the name of the default bridge is
  taken by a device that is not a bridge.\<close>

definition newBridge :: "string \<Rightarrow> int \<Rightarrow> Link" where
  "newBridge brName m =
     Bridge \<lparr>Attr_Name = brName, Attr_MTU = m, Attr_Index = 0, Attr_ParentIndex = 0\<rparr>"

definition cni0 :: Link where
  "cni0 = Bridge \<lparr>Attr_Name = ''kvm-cni0'', Attr_MTU = 1500, Attr_Index = 1, Attr_ParentIndex = 0\<rparr>"

definition nameTaken :: kernel where
  "nameTaken = emptyKernel\<lparr>k_links :=
     [Device \<lparr>Attr_Name = ''kvm-cni0'', Attr_MTU = 1500, Attr_Index = 1, Attr_ParentIndex = 0\<rparr>]\<rparr>"



text \<open>A kernel with a stale route on a link index, the tap device the
  reference kernel creates first for the pod of the examples, and the addressing the IPAM
  plugin of the reference host hands out.\<close>

definition staleRoute :: "int \<Rightarrow> netlink_Route" where
  "staleRoute i = \<lparr>LinkIndex = i, Route_Scope = SCOPE_UNIVERSE,
                    Route_Dst = \<lparr>IPNet_IP = [10, 1, 17, 0], IPNet_Mask = [255, 255, 255, 0]\<rparr>\<rparr>"

definition withStaleRoute :: "int \<Rightarrow> kernel" where
  "withStaleRoute i = emptyKernel\<lparr>k_routes := [staleRoute i]\<rparr>"

definition tap :: "nat \<Rightarrow> int \<Rightarrow> Link" where
  "tap j i = Tuntap \<lparr>Attr_Name = ''rkt-0123-tap'' @ Itoa j, Attr_MTU = 1500, Attr_Index = i,
                     Attr_ParentIndex = 0\<rparr>"

definition addressed :: "string \<Rightarrow> NetInfo" where
  "addressed ifn =
     \<lparr>IfName = ifn, Runtime_IP = [10, 1, 17, 2], Runtime_Mask = [255, 255, 255, 0],
      HostIP = [10, 1, 17, 1],
      Runtime_IP4 = Some \<lparr>IPConfig_IP = \<lparr>IPNet_IP = [10, 1, 17, 2],
                                          IPNet_Mask = [255, 255, 255, 0]\<rparr>,
                            Gateway = [10, 1, 17, 1], Routes = []\<rparr>\<rparr>"

section \<open>What teardown owes a descriptor\<close>

text \<open>The two calls that release what setup took for a descriptor: the IPAM plugin run with
  \<open>DEL\<close> on the descriptor with its type replaced, and the removal of the masquerading rule
  under the chain name of the pod and the network.\<close>

definition released :: "ActiveNet \<Rightarrow> event" where
  "released an =
     EvExecNetPlugin ''DEL'' (an\<lparr>Conf := (Conf an)\<lparr>Conf_Type := IPAM_Type (Conf an)\<rparr>\<rparr>)
       (IfName (Runtime an))"

definition unmasqueraded :: "'w host \<Rightarrow> Networking \<Rightarrow> ActiveNet \<Rightarrow> event" where
  "unmasqueraded h n an =
     EvTeardownIPMasq
       \<lparr>IPNet_IP = Runtime_IP (Runtime an), IPNet_Mask = Runtime_Mask (Runtime an)\<rparr>
       (getChainName h (podID n) (Conf_Name (Conf an))) masqComment"

text \<open>\<open>releasedIn h n an es\<close>: the events \<open>es\<close> start with the release of the address, and
  hold the removal of the masquerading rule when the descriptor asks for masquerading.\<close>

definition releasedIn :: "'w host \<Rightarrow> Networking \<Rightarrow> ActiveNet \<Rightarrow> event list \<Rightarrow> bool" where
  "releasedIn h n an es =
     (\<exists>rest. es = released an # rest \<and>
        (IPMasq (Conf an) \<longrightarrow> unmasqueraded h n an \<in> set rest))"

text \<open>\<open>attempted h n an es\<close>: \<open>es\<close> are the events of one round of the loop of teardown for
  the descriptor \<open>an\<close>. For ptp and bridge: the removal of the tap device, then the release.
  For macvlan: the lookup of the link, and then either the log line that it was not found, or
  its deletion and the log line that this failed, or its deletion and the release. For any
  other type: the log line that the type is not supported.\<close>

definition attempted :: "'w host \<Rightarrow> Networking \<Rightarrow> ActiveNet \<Rightarrow> event list \<Rightarrow> bool" where
  "attempted h n an es =
     (if Conf_Type (Conf an) = ''ptp'' \<or> Conf_Type (Conf an) = ''bridge'' then
        (\<exists>rest. es = EvRemovePersistentIface (IfName (Runtime an)) # rest \<and>
           releasedIn h n an rest)
      else if Conf_Type (Conf an) = ''macvlan'' then
        (\<exists>rest. es = EvLinkByName (IfName (Runtime an)) # rest \<and>
           ((\<exists>e. rest = [EvPrintE ''cannot find link `%v`'' [ArgStr (IfName (Runtime an))] e]) \<or>
            (\<exists>l e. rest = [EvLinkDel l,
                 EvPrintE ''cannot remove link `%v`'' [ArgStr (IfName (Runtime an))] e]) \<or>
            (\<exists>l rest'. rest = EvLinkDel l # rest' \<and> releasedIn h n an rest')))
      else es = [EvPrintf ''unsupported network type: %q'' [ArgStr (Conf_Type (Conf an))]])"

text \<open>What is logged for the answer of the plugin and for the answer of the removal of the
  masquerading rule.\<close>

definition pluginFailure :: "error + bytes \<Rightarrow> event list" where
  "pluginFailure r =
     (case r of Inl err \<Rightarrow> [EvPrintE ''error executing network plugin'' [] err] | Inr out \<Rightarrow> [])"

definition masqFailure :: "error option \<Rightarrow> event list" where
  "masqFailure r =
     (case r of Some err \<Rightarrow> [EvPrintE ''error on removing masquerading'' [] err] | None \<Rightarrow> [])"

text \<open>\<open>releasedFrom h n an w w'\<close>: from the world \<open>w\<close>, the address of \<open>an\<close> is released and
  \<open>w'\<close> is the world after it. The plugin is run with \<open>DEL\<close> and its failure logged; when the
  descriptor asks for masquerading the rule is removed next, whatever the plugin answered,
  and a failure of that logged.\<close>

definition releasedFrom :: "'w host \<Rightarrow> Networking \<Rightarrow> ActiveNet \<Rightarrow> 'w world \<Rightarrow> 'w world \<Rightarrow> bool"
  where
  "releasedFrom h n an w w' =
     (case execNetPlugin h (podEnv.truncate n) ''DEL''
             (an\<lparr>Conf := (Conf an)\<lparr>Conf_Type := IPAM_Type (Conf an)\<rparr>\<rparr>)
             (IfName (Runtime an)) (sys w) of
        (r, s1) \<Rightarrow>
          if IPMasq (Conf an) then
            (case ip_TeardownIPMasq h
                    \<lparr>IPNet_IP = Runtime_IP (Runtime an), IPNet_Mask = Runtime_Mask (Runtime an)\<rparr>
                    (getChainName h (podID n) (Conf_Name (Conf an))) masqComment s1 of
               (r2, s2) \<Rightarrow>
                 w' = \<lparr>sys = s2,
                       trace = trace w @ released an # pluginFailure r @
                         unmasqueraded h n an # masqFailure r2\<rparr>)
          else w' = \<lparr>sys = s1, trace = trace w @ released an # pluginFailure r\<rparr>)"

text \<open>\<open>cleanedUp h n an w w'\<close>: what teardown does for the descriptor \<open>an\<close> from the world
  \<open>w\<close>, by what the host answers, with \<open>w'\<close> the world after it.
  \<^item> ptp, bridge: the tap device is removed and, whatever the answer, the address released.
  \<^item> macvlan: the link is looked up. Not found: that is logged, and nothing else is done.
    Found: the link is deleted. Not deleted: that is logged, and nothing else is done.
    Deleted: the address is released.
  \<^item> any other type: it is logged as not supported, and nothing else is done.\<close>

definition cleanedUp :: "'w host \<Rightarrow> Networking \<Rightarrow> ActiveNet \<Rightarrow> 'w world \<Rightarrow> 'w world \<Rightarrow> bool"
  where
  "cleanedUp h n an w w' =
     (if Conf_Type (Conf an) = ''ptp'' \<or> Conf_Type (Conf an) = ''bridge'' then
        (case tuntap_RemovePersistentIface h (IfName (Runtime an)) (sys w) of
           (r, s1) \<Rightarrow>
             releasedFrom h n an
               \<lparr>sys = s1, trace = trace w @ [EvRemovePersistentIface (IfName (Runtime an))]\<rparr> w')
      else if Conf_Type (Conf an) = ''macvlan'' then
        (case netlink_LinkByName h (IfName (Runtime an)) (sys w) of
           (Inl err, s1) \<Rightarrow>
             w' = \<lparr>sys = s1,
                   trace = trace w @
                     [EvLinkByName (IfName (Runtime an)),
                      EvPrintE ''cannot find link `%v`'' [ArgStr (IfName (Runtime an))] err]\<rparr>
         | (Inr link, s1) \<Rightarrow>
             (case netlink_LinkDel h link s1 of
                (Some err, s2) \<Rightarrow>
                  w' = \<lparr>sys = s2,
                        trace = trace w @
                          [EvLinkByName (IfName (Runtime an)), EvLinkDel link,
                           EvPrintE ''cannot remove link `%v`'' [ArgStr (IfName (Runtime an))]
                             err]\<rparr>
              | (None, s2) \<Rightarrow>
                  releasedFrom h n an
                    \<lparr>sys = s2,
                     trace = trace w @ [EvLinkByName (IfName (Runtime an)), EvLinkDel link]\<rparr> w'))
      else w' = \<lparr>sys = sys w,
                 trace = trace w @
                   [EvPrintf ''unsupported network type: %q'' [ArgStr (Conf_Type (Conf an))]]\<rparr>)"

text \<open>\<open>inTurn R xs w w'\<close>: the steps \<open>R x\<close> for the elements of \<open>xs\<close>, one after the other in the
  order of the list, lead from \<open>w\<close> to \<open>w'\<close>.\<close>

fun inTurn :: "('a \<Rightarrow> 'b \<Rightarrow> 'b \<Rightarrow> bool) \<Rightarrow> 'a list \<Rightarrow> 'b \<Rightarrow> 'b \<Rightarrow> bool" where
  "inTurn R [] w w' = (w' = w)"
| "inTurn R (x # xs) w w' = (\<exists>w1. R x w w1 \<and> inTurn R xs w1 w')"

text \<open>The world after the removal of the forwarded ports, a failure of which is logged.\<close>

definition afterUnforward :: "'w host \<Rightarrow> Networking \<Rightarrow> 'w world \<Rightarrow> 'w world" where
  "afterUnforward h n w =
     (case unforwardPorts h n (sys w) of
        (r, s) \<Rightarrow>
          \<lparr>sys = s,
           trace = trace w @ EvUnforwardPorts #
             (case r of
                Some err \<Rightarrow> [EvPrintE ''error removing forwarded ports (kvm)'' [] err]
              | None \<Rightarrow> [])\<rparr>)"

text \<open>A descriptor that asks for masquerading and has its runtime state filled in.\<close>

definition masqNet :: "string \<Rightarrow> string \<Rightarrow> ActiveNet" where
  "masqNet t ifn = (netOf t)\<lparr>Conf := (Conf (netOf t))\<lparr>IPMasq := True\<rparr>, Runtime := addressed ifn\<rparr>"

section \<open>The flannel example\<close>

text \<open>The lease of the example, a kernel that has it under the default path, and hosts on
  which the configuration of the network decodes to the name \<open>rktnet\<close>, the type \<open>flannel\<close>
  and a given delegate.\<close>

definition exampleLease :: "string list" where
  "exampleLease =
     [''FLANNEL_NETWORK=10.1.0.0/16'', ''FLANNEL_SUBNET=10.1.17.0/24'', ''FLANNEL_MTU=1472'',
      ''FLANNEL_IPMASQ=true'']"

definition withLease :: kernel where
  "withLease = emptyKernel\<lparr>k_files := [(defaultSubnetFile, exampleLease)]\<rparr>"

definition flannelHost :: "dict option \<Rightarrow> kernel host" where
  "flannelHost d =
     refhost\<lparr>json_Unmarshal_FlannelNetConf :=
       (\<lambda>b c. Inr (c\<lparr>Conf_Name := ''rktnet'', Conf_Type := ''flannel'', Delegate := d\<rparr>))\<rparr>"

text \<open>The delegate the transformer builds in the example.\<close>

definition exampleDelegate :: dict where
  "exampleDelegate =
     [''name'' \<mapsto> VString ''rktnet'',
      ''type'' \<mapsto> VString ''bridge'',
      ''ipMasq'' \<mapsto> VBool False,
      ''mtu'' \<mapsto> VInt 1472,
      ''isGateway'' \<mapsto> VBool True,
      ''ipam'' \<mapsto> VMap
        [''type'' \<mapsto> VString ''host-local'',
         ''subnet'' \<mapsto> VString ''10.1.17.0/24'',
         ''routes'' \<mapsto> VRoutes
           [\<lparr>Dst = \<lparr>IPNet_IP = [10, 1, 0, 0], IPNet_Mask = [255, 255, 0, 0]\<rparr>, GW = []\<rparr>]]]"

text \<open>The three errors of the checks on a delegate.\<close>

definition delegateErrors :: "error set" where
  "delegateErrors =
     {Errorf '''delegate' dictionary, if present, must have (string) 'type' field'' [],
      Errorf '''delegate' dictionary must not have 'name' field, it'll be set by flannel'' [],
      Errorf '''delegate' dictionary must not have 'ipam' field, it'll be set by flannel'' []}"

section \<open>The reference host, field by field\<close>

lemma refhost_sel:
  "tuntap_CreatePersistentIface refhost = k_CreatePersistentIface"
  "tuntap_RemovePersistentIface refhost = k_RemovePersistentIface"
  "netlink_LinkByName refhost = k_LinkByName"
  "netlink_LinkSetUp refhost = k_LinkSetUp"
  "netlink_LinkAdd refhost = k_LinkAdd"
  "netlink_LinkDel refhost = k_LinkDel"
  "netlink_LinkSetMaster refhost = (\<lambda>l br k. (None, k))"
  "netlink_AddrList refhost = k_AddrList"
  "netlink_AddrAdd refhost = k_AddrAdd"
  "netlink_RouteList refhost = k_RouteList"
  "netlink_RouteDel refhost = k_RouteDel"
  "netlink_RouteAdd refhost = k_RouteAdd"
  "ip_EnableIP4Forward refhost = (\<lambda>k. (None, k))"
  "ip_SetupIPMasq refhost = (\<lambda>ipn chain comment k. (None, k))"
  "ip_TeardownIPMasq refhost = (\<lambda>ipn chain comment k. (None, k))"
  "execNetPlugin refhost = (\<lambda>env cmd n ifName k. (Inr ''ipam-result'', k))"
  "loadNets refhost = (\<lambda>env k. (Inr [], k))"
  "forwardPorts refhost = (\<lambda>n fps ip k. (None, k))"
  "unforwardPorts refhost = (\<lambda>n k. (None, k))"
  "os_Open_Scan refhost = k_Open_Scan"
  "json_Unmarshal_Result refhost =
     (\<lambda>b. if b = ''ipam-result'' then Inr ipamResult else Inl (Foreign ''invalid character''))"
  "json_Unmarshal_BridgeNetConf refhost = (\<lambda>b c. Inr c)"
  "json_Unmarshal_MacVTapNetConf refhost = (\<lambda>b c. Inr c)"
  "json_Unmarshal_FlannelNetConf refhost = (\<lambda>b c. Inr c)"
  "json_Marshal refhost = (\<lambda>m. Inr ''delegate'')"
  "net_ParseCIDR refhost = k_ParseCIDR"
  "strconv_ParseUint refhost = k_ParseUint"
  "IPNet_String refhost = k_IPNet_String"
  "sha512_Sum512 refhost = (\<lambda>s. replicate 64 0)"
  by (simp_all add: refhost_def)

section \<open>The macvtap device\<close>

lemma macvlanMode_None:
  "macvlanMode m = None \<longleftrightarrow> m \<notin> {[], ''bridge'', ''private'', ''vepa'', ''passthru''}"
  by (simp add: macvlanMode_def)

text \<open>
  C7, as stated, fails: the master device is looked up before the mode is checked, and when
  the lookup fails its error is returned, whatever the mode. On a host without \<open>eth0\<close> the
  mode \<open>unknown\<close> yields the lookup error, not the unsupported-mode error.
\<close>

theorem setupMacVTapDevice_unknown_mode_no_master:
  "macvlanMode ''unknown'' = None \<and>
   fst (setupMacVTapDevice refhost ''0123abcd'' (macvtapConf ''unknown'') 0 (start emptyKernel)) =
     Inl (Wrap (Errorf ''cannot find master device %v'' [ArgStr ''eth0''])
            (Foreign ''Link not found''))"
  by (simp add: setupMacVTapDevice_def call_def macvlanMode_def macvtapConf_def
      zero_MacVTapNetConf_def refhost_sel k_LinkByName_def start_def emptyKernel_def)

text \<open>
  C7, amended: for a mode that is none of the empty text, \<open>bridge\<close>, \<open>private\<close>, \<open>vepa\<close> and
  \<open>passthru\<close>, the setup of the macvtap device returns an error and its only call is the
  lookup of the master device, so that no link is added. The error is the unsupported-mode
  error when the master device is found, and the wrapped lookup error when it is not.
\<close>

theorem setupMacVTapDevice_unsupported_mode:
  assumes "Mode config \<notin> {[], ''bridge'', ''private'', ''vepa'', ''passthru''}"
  shows "setupMacVTapDevice h pid config i w =
     (case netlink_LinkByName h (Master config) (sys w) of
        (Inl err, s) \<Rightarrow>
          (Inl (Wrap (Errorf ''cannot find master device %v'' [ArgStr (Master config)]) err),
           \<lparr>sys = s, trace = trace w @ [EvLinkByName (Master config)]\<rparr>)
      | (Inr master, s) \<Rightarrow>
          (Inl (Errorf ''unsupported macvtap mode: %v'' [ArgStr (Mode config)]),
           \<lparr>sys = s, trace = trace w @ [EvLinkByName (Master config)]\<rparr>))"
proof -
  from assms have m: "macvlanMode (Mode config) = None"
    by (simp add: macvlanMode_None)
  show ?thesis
    by (simp add: setupMacVTapDevice_def call_def m split: prod.splits sum.splits)
qed

theorem setupMacVTapDevice_unsupported_mode_witness:
  "''unknown'' \<notin> {[], ''bridge'', ''private'', ''vepa'', ''passthru''} \<and>
   setupMacVTapDevice refhost ''0123abcd'' (macvtapConf ''unknown'') 0 (start withEth0) =
     (Inl (Errorf ''unsupported macvtap mode: %v'' [ArgStr ''unknown'']),
      \<lparr>sys = withEth0, trace = [EvLinkByName ''eth0'']\<rparr>)"
proof -
  have m: "Mode (macvtapConf ''unknown'') \<notin> {[], ''bridge'', ''private'', ''vepa'', ''passthru''}"
    by (simp add: macvtapConf_def)
  have l: "netlink_LinkByName refhost ''eth0'' withEth0 = (Inr eth0, withEth0)"
    by (simp add: refhost_sel k_LinkByName_def withEth0_def eth0_def named_def emptyKernel_def)
  show ?thesis
    using setupMacVTapDevice_unsupported_mode [OF m, of refhost "''0123abcd''" 0 "start withEth0"] l
    by (simp add: macvtapConf_def start_def)
qed

text \<open>
  C9, as stated, fails: the result of the deletion is dropped, so that a link that can
  neither be brought up nor deleted stays behind. On such a host the setup returns the error
  of bringing the link up and the kernel still has the macvtap link it added.
\<close>

theorem setupMacVTapDevice_leaves_link_it_cannot_delete:
  "setupMacVTapDevice cannotDelete ''0123abcd'' (macvtapConf ''vepa'') 0 (start withEth0) =
     (Inl (Wrap (Errorf ''cannot set up macvtap interface'' [])
             (Foreign ''operation not permitted'')),
      \<lparr>sys = withEth0\<lparr>k_links := [eth0, vtap0 2]\<rparr>,
       trace = [EvLinkByName ''eth0'', EvLinkAdd (vtap0 0), EvLinkSetUp (vtap0 2),
                EvLinkDel (vtap0 2)]\<rparr>)"
  by (simp add: setupMacVTapDevice_def call_def Let_def macvlanMode_def macvtapConf_def
      zero_MacVTapNetConf_def cannotDelete_def cannotBringUp_def refhost_sel k_LinkByName_def
      k_LinkAdd_def freshIndex_def named_def withEth0_def eth0_def vtap0_def emptyKernel_def
      start_def Itoa.simps)

text \<open>
  C9, amended: when the macvtap link has been added and cannot be brought up, the deletion
  of the link that was just added is attempted before the error is returned, and its own
  result is dropped: the last call of the run is the deletion of that link, the state of the
  host is the one the deletion leaves, whether it succeeded or not, and the error returned
  is the one of bringing the link up.
\<close>

theorem setupMacVTapDevice_deletes_link_it_cannot_bring_up:
  assumes "netlink_LinkByName h (Master config) (sys w) = (Inr master, s1)"
    and "macvlanMode (Mode config) = Some mode"
    and "link = Macvtap
           \<lparr>Attr_Name = ''rkt-'' @ take 4 pid @ ''-vtap'' @ Itoa i,
            Attr_MTU = (if MTU config \<noteq> 0 then MTU config else Attr_MTU (Attrs master)),
            Attr_Index = 0, Attr_ParentIndex = Attr_Index (Attrs master)\<rparr> mode"
    and "netlink_LinkAdd h link s1 = (Inr link', s2)"
    and "netlink_LinkSetUp h link' s2 = (Some err, s3)"
  shows "setupMacVTapDevice h pid config i w =
     (Inl (Wrap (Errorf ''cannot set up macvtap interface'' []) err),
      \<lparr>sys = snd (netlink_LinkDel h link' s3),
       trace = trace w @
         [EvLinkByName (Master config), EvLinkAdd link, EvLinkSetUp link', EvLinkDel link']\<rparr>)"
  using assms
  by (simp add: setupMacVTapDevice_def call_def Let_def split: prod.splits)

theorem setupMacVTapDevice_deletes_link_it_cannot_bring_up_witness:
  "setupMacVTapDevice cannotBringUp ''0123abcd'' (macvtapConf ''vepa'') 0 (start withEth0) =
     (Inl (Wrap (Errorf ''cannot set up macvtap interface'' [])
             (Foreign ''operation not permitted'')),
      \<lparr>sys = withEth0,
       trace = [EvLinkByName ''eth0'', EvLinkAdd (vtap0 0), EvLinkSetUp (vtap0 2),
                EvLinkDel (vtap0 2)]\<rparr>)"
proof -
  let ?k2 = "withEth0\<lparr>k_links := [eth0, vtap0 2]\<rparr>"
  have a: "netlink_LinkByName cannotBringUp (Master (macvtapConf ''vepa'')) (sys (start withEth0)) =
             (Inr eth0, withEth0)"
    by (simp add: cannotBringUp_def refhost_sel k_LinkByName_def withEth0_def eth0_def named_def
        emptyKernel_def macvtapConf_def start_def)
  have b: "macvlanMode (Mode (macvtapConf ''vepa'')) = Some MACVLAN_MODE_VEPA"
    by (simp add: macvlanMode_def macvtapConf_def)
  have c: "vtap0 0 = Macvtap
           \<lparr>Attr_Name = ''rkt-'' @ take 4 ''0123abcd'' @ ''-vtap'' @ Itoa 0,
            Attr_MTU = (if MTU (macvtapConf ''vepa'') \<noteq> 0 then MTU (macvtapConf ''vepa'')
                        else Attr_MTU (Attrs eth0)),
            Attr_Index = 0, Attr_ParentIndex = Attr_Index (Attrs eth0)\<rparr> MACVLAN_MODE_VEPA"
    by (simp add: vtap0_def macvtapConf_def zero_MacVTapNetConf_def eth0_def Itoa.simps)
  have d: "netlink_LinkAdd cannotBringUp (vtap0 0) withEth0 = (Inr (vtap0 2), ?k2)"
    by (simp add: cannotBringUp_def refhost_sel k_LinkAdd_def withEth0_def eth0_def named_def
        emptyKernel_def vtap0_def freshIndex_def)
  have e: "netlink_LinkSetUp cannotBringUp (vtap0 2) ?k2 =
             (Some (Foreign ''operation not permitted''), ?k2)"
    by (simp add: cannotBringUp_def refhost_sel)
  have f: "snd (netlink_LinkDel cannotBringUp (vtap0 2) ?k2) = withEth0"
    by (simp add: cannotBringUp_def refhost_sel k_LinkDel_def withEth0_def eth0_def named_def
        emptyKernel_def vtap0_def)
  show ?thesis
    using setupMacVTapDevice_deletes_link_it_cannot_bring_up [OF a b c d e] f
    by (simp add: start_def macvtapConf_def)
qed

section \<open>The lease reader\<close>

lemma SplitN_no_separator: "sep \<notin> set s \<Longrightarrow> SplitN s sep = [s]"
  by (simp add: SplitN_def)

lemma scanLines_key_without_separator:
  assumes "key \<in> {''FLANNEL_NETWORK'', ''FLANNEL_SUBNET'', ''FLANNEL_MTU'', ''FLANNEL_IPMASQ''}"
  shows "scanLines h (key # rest) se = Panic IndexOutOfRange"
proof -
  from assms have "CHR ''='' \<notin> set key" by auto
  then have "SplitN key CHR ''='' = [key]" by (rule SplitN_no_separator)
  with assms show ?thesis by (auto simp: at_def)
qed

text \<open>
  C10 fails on the code: a line that is a recognised key without \<open>=\<close> is split into one
  part, and the index expression \<open>parts[1]\<close> panics. On a lease file whose only line is
  \<open>FLANNEL_MTU\<close> the reader neither returns a subnet environment nor an error.
\<close>

theorem loadFlannelSubnetEnv_panics_without_separator:
  "fst (loadFlannelSubnetEnv refhost defaultSubnetFile (start leaseWithoutSeparator)) =
     Panic IndexOutOfRange"
proof -
  have scan: "scanLines refhost [''FLANNEL_MTU''] zero_subnetEnv = Panic IndexOutOfRange"
    by (rule scanLines_key_without_separator) simp
  have lease: "os_Open_Scan refhost defaultSubnetFile leaseWithoutSeparator =
      (Inr ([''FLANNEL_MTU''], None), leaseWithoutSeparator)"
    by (simp add: refhost_sel k_Open_Scan_def leaseWithoutSeparator_def emptyKernel_def)
  show ?thesis
    by (simp add: loadFlannelSubnetEnv_def call_def start_def lease scan del: scanLines.simps)
qed

section \<open>The allocator\<close>

lemma kvmSetupNetAddressing_Conf:
  "kvmSetupNetAddressing h env n ifName w = ((r, n'), w') \<Longrightarrow>
   Conf n' = Conf n \<and> ConfBytes n' = ConfBytes n"
  by (auto simp: kvmSetupNetAddressing_def call_def Let_def
      split: prod.splits option.splits sum.splits)

lemma kvmSetupNetAddressing_failure:
  "kvmSetupNetAddressing h env n ifName w = ((Some e, n'), w') \<Longrightarrow> Runtime n' = Runtime n"
  by (auto simp: kvmSetupNetAddressing_def call_def Let_def
      split: prod.splits option.splits sum.splits)

lemma kvmSetupNetAddressing_success:
  "kvmSetupNetAddressing h env n ifName w = ((None, n'), w') \<Longrightarrow>
   \<exists>output result ip4.
     fst (execNetPlugin h env ''ADD'' (n\<lparr>Conf := (Conf n)\<lparr>Conf_Type := IPAM_Type (Conf n)\<rparr>\<rparr>) ifName
            (snd (ip_EnableIP4Forward h (sys w)))) = Inr output \<and>
     json_Unmarshal_Result h output = Inr result \<and>
     Result_IP4 result = Some ip4 \<and>
     Runtime n' = (Runtime n)
       \<lparr>Runtime_IP := IPNet_IP (IPConfig_IP ip4), Runtime_Mask := IPNet_Mask (IPConfig_IP ip4),
        HostIP := Gateway ip4, Runtime_IP4 := Some ip4\<rparr>"
  by (auto simp: kvmSetupNetAddressing_def call_def Let_def
      split: prod.splits option.splits sum.splits)

lemma kvmSetupNetAddressing_returns_block:
  assumes "ip_EnableIP4Forward h (sys w) = (None, s1)"
    and "execNetPlugin h env ''ADD'' (n\<lparr>Conf := (Conf n)\<lparr>Conf_Type := IPAM_Type (Conf n)\<rparr>\<rparr>)
           ifName s1 = (Inr output, s2)"
    and "json_Unmarshal_Result h output = Inr result"
    and "Result_IP4 result = Some ip4"
  shows "fst (kvmSetupNetAddressing h env n ifName w) =
     (None, n\<lparr>Runtime := (Runtime n)
       \<lparr>Runtime_IP := IPNet_IP (IPConfig_IP ip4), Runtime_Mask := IPNet_Mask (IPConfig_IP ip4),
        HostIP := Gateway ip4, Runtime_IP4 := Some ip4\<rparr>\<rparr>)"
  using assms by (simp add: kvmSetupNetAddressing_def call_def Let_def)

text \<open>
  C5: the allocation step writes the runtime state all at once or not at all. When it
  returns an error the runtime block of the descriptor is what it was. When it returns
  without error, the plugin ran, its output was decoded and held an IPv4 block, and the
  runtime block differs from the old one in exactly the four fields, all taken from that
  block. And whenever forwarding is enabled, the plugin succeeds and its decoded output
  holds an IPv4 block, the step returns without error.
\<close>

theorem kvmSetupNetAddressing_all_or_nothing:
  assumes "kvmSetupNetAddressing h env n ifName w = ((r, n'), w')"
  shows "(r \<noteq> None \<longrightarrow> Runtime n' = Runtime n) \<and>
    (r = None \<longrightarrow>
      (\<exists>output result ip4.
         fst (execNetPlugin h env ''ADD'' (n\<lparr>Conf := (Conf n)\<lparr>Conf_Type := IPAM_Type (Conf n)\<rparr>\<rparr>)
                ifName (snd (ip_EnableIP4Forward h (sys w)))) = Inr output \<and>
         json_Unmarshal_Result h output = Inr result \<and>
         Result_IP4 result = Some ip4 \<and>
         Runtime n' = (Runtime n)
           \<lparr>Runtime_IP := IPNet_IP (IPConfig_IP ip4),
            Runtime_Mask := IPNet_Mask (IPConfig_IP ip4),
            HostIP := Gateway ip4, Runtime_IP4 := Some ip4\<rparr>)) \<and>
    (\<forall>output result ip4.
       fst (ip_EnableIP4Forward h (sys w)) = None \<and>
       fst (execNetPlugin h env ''ADD'' (n\<lparr>Conf := (Conf n)\<lparr>Conf_Type := IPAM_Type (Conf n)\<rparr>\<rparr>)
              ifName (snd (ip_EnableIP4Forward h (sys w)))) = Inr output \<and>
       json_Unmarshal_Result h output = Inr result \<and>
       Result_IP4 result = Some ip4 \<longrightarrow> r = None)"
proof (intro conjI impI allI)
  assume "r \<noteq> None"
  then obtain e where "r = Some e" by auto
  with assms show "Runtime n' = Runtime n"
    by (auto dest: kvmSetupNetAddressing_failure)
next
  assume "r = None"
  with assms show "\<exists>output result ip4.
         fst (execNetPlugin h env ''ADD'' (n\<lparr>Conf := (Conf n)\<lparr>Conf_Type := IPAM_Type (Conf n)\<rparr>\<rparr>)
                ifName (snd (ip_EnableIP4Forward h (sys w)))) = Inr output \<and>
         json_Unmarshal_Result h output = Inr result \<and>
         Result_IP4 result = Some ip4 \<and>
         Runtime n' = (Runtime n)
           \<lparr>Runtime_IP := IPNet_IP (IPConfig_IP ip4),
            Runtime_Mask := IPNet_Mask (IPConfig_IP ip4),
            HostIP := Gateway ip4, Runtime_IP4 := Some ip4\<rparr>"
    by (auto dest: kvmSetupNetAddressing_success)
next
  fix out result ip4
  assume a: "fst (ip_EnableIP4Forward h (sys w)) = None \<and>
       fst (execNetPlugin h env ''ADD'' (n\<lparr>Conf := (Conf n)\<lparr>Conf_Type := IPAM_Type (Conf n)\<rparr>\<rparr>)
              ifName (snd (ip_EnableIP4Forward h (sys w)))) = Inr out \<and>
       json_Unmarshal_Result h out = Inr result \<and>
       Result_IP4 result = Some ip4"
  obtain s1 where s1: "ip_EnableIP4Forward h (sys w) = (None, s1)"
    using a by (cases "ip_EnableIP4Forward h (sys w)") auto
  obtain s2 where s2: "execNetPlugin h env ''ADD''
       (n\<lparr>Conf := (Conf n)\<lparr>Conf_Type := IPAM_Type (Conf n)\<rparr>\<rparr>) ifName s1 = (Inr out, s2)"
    using a s1
    by (cases "execNetPlugin h env ''ADD''
          (n\<lparr>Conf := (Conf n)\<lparr>Conf_Type := IPAM_Type (Conf n)\<rparr>\<rparr>) ifName s1") auto
  from kvmSetupNetAddressing_returns_block [OF s1 s2] a assms show "r = None"
    by auto
qed

theorem kvmSetupNetAddressing_all_or_nothing_witness:
  "Runtime (snd (fst (kvmSetupNetAddressing refhost pod (netOf ''ptp'') ''tap0'' (start emptyKernel)))) =
     zero_NetInfo\<lparr>Runtime_IP := [10, 1, 17, 2], Runtime_Mask := [255, 255, 255, 0],
                  HostIP := [10, 1, 17, 1],
                  Runtime_IP4 := Some \<lparr>IPConfig_IP = \<lparr>IPNet_IP = [10, 1, 17, 2],
                                                      IPNet_Mask = [255, 255, 255, 0]\<rparr>,
                                        Gateway = [10, 1, 17, 1], Routes = []\<rparr>\<rparr> \<and>
   fst (fst (kvmSetupNetAddressing noIP4 pod (netOf ''ptp'') ''tap0'' (start emptyKernel))) =
     Some (Errorf ''net-plugin returned no IPv4 configuration'' []) \<and>
   Runtime (snd (fst (kvmSetupNetAddressing noIP4 pod (netOf ''ptp'') ''tap0'' (start emptyKernel)))) =
     zero_NetInfo"
proof -
  obtain r n' w' where ok:
    "kvmSetupNetAddressing refhost pod (netOf ''ptp'') ''tap0'' (start emptyKernel) = ((r, n'), w')"
    by (metis surj_pair)
  have r: "r = None"
    using ok by (simp add: kvmSetupNetAddressing_def call_def Let_def refhost_sel start_def
        ipamResult_def)
  have out: "execNetPlugin refhost pod ''ADD'' n ifn s = (Inr ''ipam-result'', s)" for n ifn s
    by (simp add: refhost_sel)
  have dec: "json_Unmarshal_Result refhost ''ipam-result'' = Inr ipamResult"
    by (simp add: refhost_sel)
  from kvmSetupNetAddressing_all_or_nothing [OF ok] r have a:
    "Runtime n' = zero_NetInfo\<lparr>Runtime_IP := [10, 1, 17, 2], Runtime_Mask := [255, 255, 255, 0],
                  HostIP := [10, 1, 17, 1],
                  Runtime_IP4 := Some \<lparr>IPConfig_IP = \<lparr>IPNet_IP = [10, 1, 17, 2],
                                                      IPNet_Mask = [255, 255, 255, 0]\<rparr>,
                                        Gateway = [10, 1, 17, 1], Routes = []\<rparr>\<rparr>"
    by (auto simp: out dec ipamResult_def netOf_def)
  obtain r2 n2 w2 where bad:
    "kvmSetupNetAddressing noIP4 pod (netOf ''ptp'') ''tap0'' (start emptyKernel) = ((r2, n2), w2)"
    by (metis surj_pair)
  have r2: "r2 = Some (Errorf ''net-plugin returned no IPv4 configuration'' [])"
    using bad by (simp add: kvmSetupNetAddressing_def call_def Let_def noIP4_def refhost_sel
        start_def)
  from kvmSetupNetAddressing_all_or_nothing [OF bad] r2 have b: "Runtime n2 = zero_NetInfo"
    by (simp add: netOf_def)
  from a b r2 show ?thesis
    by (simp add: ok bad)
qed

section \<open>The substitution of the type\<close>

lemma teardownRelease_descriptor:
  "teardownRelease h n an w = (an', w') \<Longrightarrow>
   an' = an\<lparr>Conf := (Conf an)\<lparr>Conf_Type := IPAM_Type (Conf an)\<rparr>\<rparr>"
  by (auto simp: teardownRelease_def call_def Let_def split: prod.splits option.splits if_splits)

lemma teardownRelease_trace:
  "teardownRelease h n an w = (an', w') \<Longrightarrow>
   \<exists>es. trace w' = trace w @ EvExecNetPlugin ''DEL'' an' (IfName (Runtime an)) # es"
  by (auto simp: teardownRelease_def call_def logE_def Let_def
      split: prod.splits option.splits sum.splits if_splits)

lemma kvmSetupNetAddressing_trace:
  "kvmSetupNetAddressing h env n ifName w = ((r, n'), w') \<Longrightarrow>
   fst (ip_EnableIP4Forward h (sys w)) = None \<Longrightarrow>
   trace w' = trace w @
     [EvEnableIP4Forward,
      EvExecNetPlugin ''ADD'' (n\<lparr>Conf := (Conf n)\<lparr>Conf_Type := IPAM_Type (Conf n)\<rparr>\<rparr>) ifName]"
  by (auto simp: kvmSetupNetAddressing_def call_def Let_def
      split: prod.splits option.splits sum.splits)

lemma teardownKvmNet_descriptor:
  assumes "teardownKvmNet h net an w = (an', w')"
  shows "(an' = an \<and> (\<forall>c a i. EvExecNetPlugin c a i \<notin> set (drop (length (trace w)) (trace w')))) \<or>
     (an' = an\<lparr>Conf := (Conf an)\<lparr>Conf_Type := IPAM_Type (Conf an)\<rparr>\<rparr> \<and>
      EvExecNetPlugin ''DEL'' an' (IfName (Runtime an))
        \<in> set (drop (length (trace w)) (trace w')))"
proof -
  have rel: "an2 = an\<lparr>Conf := (Conf an)\<lparr>Conf_Type := IPAM_Type (Conf an)\<rparr>\<rparr> \<and>
      EvExecNetPlugin ''DEL'' an2 (IfName (Runtime an))
        \<in> set (drop (length (trace w)) (trace w2))"
    if "teardownRelease h net an w1 = (an2, w2)" and "\<exists>es. trace w1 = trace w @ es"
    for w1 an2 w2
  proof -
    from that(2) obtain es where es: "trace w1 = trace w @ es" ..
    from teardownRelease_trace [OF that(1)] obtain es' where
      "trace w2 = trace w1 @ EvExecNetPlugin ''DEL'' an2 (IfName (Runtime an)) # es'" ..
    with es have "drop (length (trace w)) (trace w2) =
        es @ EvExecNetPlugin ''DEL'' an2 (IfName (Runtime an)) # es'"
      by simp
    with teardownRelease_descriptor [OF that(1)] show ?thesis by simp
  qed
  show ?thesis
    using assms
    by (auto simp: teardownKvmNet_def call_def logE_def
        split: if_splits prod.splits sum.splits option.splits dest!: rel)
qed

text \<open>
  C2, as stated, fails for the \<open>DEL\<close> invocation: the loop of \<open>teardownKvmNets\<close> assigns the
  IPAM type to the type of the descriptor and never assigns the old value back. After the
  teardown of a pod with one ptp network, the type of its descriptor is \<open>host-local\<close>.
\<close>

theorem kvmTeardown_leaves_ipam_type:
  "map (\<lambda>a. Conf_Type (Conf a)) (nets (podNetworking [netOf ''ptp''])) = [''ptp''] \<and>
   map (\<lambda>a. Conf_Type (Conf a))
     (nets (fst (kvmTeardown refhost (podNetworking [netOf ''ptp'']) (start emptyKernel)))) =
     [''host-local'']"
  by (simp add: kvmTeardown_def teardownKvmNets_def teardownKvmNet_def teardownRelease_def
      call_def Let_def refhost_sel podNetworking_def podEnv.extend_def netOf_def zero_NetConf_def
      k_RemovePersistentIface_def start_def emptyKernel_def split: prod.splits)

text \<open>
  C2, amended. The \<open>ADD\<close> invocation of setup runs the plugin on the descriptor with its
  type replaced by the IPAM type and returns the descriptor with its parsed configuration
  and its configuration bytes as they were, on success and on failure. In teardown, a round
  of the loop either leaves the descriptor as it was and does not run the plugin, or runs
  the plugin with \<open>DEL\<close> on the descriptor with its type replaced by the IPAM type and
  leaves the descriptor in that state: the type is not restored, every other field is
  unchanged.
\<close>

theorem allocator_invocation_type_substitution:
  "(kvmSetupNetAddressing h env n ifName w = ((r, n'), w') \<longrightarrow>
      Conf n' = Conf n \<and> ConfBytes n' = ConfBytes n \<and>
      (fst (ip_EnableIP4Forward h (sys w)) = None \<longrightarrow>
         trace w' = trace w @
           [EvEnableIP4Forward,
            EvExecNetPlugin ''ADD'' (n\<lparr>Conf := (Conf n)\<lparr>Conf_Type := IPAM_Type (Conf n)\<rparr>\<rparr>)
              ifName])) \<and>
   (teardownKvmNet h net an v = (an', v') \<longrightarrow>
      (an' = an \<and> (\<forall>c a i. EvExecNetPlugin c a i \<notin> set (drop (length (trace v)) (trace v')))) \<or>
      (an' = an\<lparr>Conf := (Conf an)\<lparr>Conf_Type := IPAM_Type (Conf an)\<rparr>\<rparr> \<and>
       EvExecNetPlugin ''DEL'' an' (IfName (Runtime an))
         \<in> set (drop (length (trace v)) (trace v'))))"
  using kvmSetupNetAddressing_Conf [of h env n ifName w r n' w']
    kvmSetupNetAddressing_trace [of h env n ifName w r n' w']
    teardownKvmNet_descriptor [of h net an v an' v']
  by blast

theorem allocator_invocation_type_substitution_witness:
  "fst (fst (kvmSetupNetAddressing noIP4 pod (netOf ''bridge'') ''tap0'' (start emptyKernel))) =
     Some (Errorf ''net-plugin returned no IPv4 configuration'' []) \<and>
   Conf (snd (fst (kvmSetupNetAddressing noIP4 pod (netOf ''bridge'') ''tap0'' (start emptyKernel)))) =
     Conf (netOf ''bridge'') \<and>
   trace (snd (kvmSetupNetAddressing noIP4 pod (netOf ''bridge'') ''tap0'' (start emptyKernel))) =
     [EvEnableIP4Forward,
      EvExecNetPlugin ''ADD''
        ((netOf ''bridge'')\<lparr>Conf := (Conf (netOf ''bridge''))\<lparr>Conf_Type := ''host-local''\<rparr>\<rparr>) ''tap0''] \<and>
   fst (teardownKvmNet noIP4 (podNetworking []) (netOf ''bridge'') (start emptyKernel)) =
     (netOf ''bridge'')\<lparr>Conf := (Conf (netOf ''bridge''))\<lparr>Conf_Type := ''host-local''\<rparr>\<rparr> \<and>
   fst (teardownKvmNet noIP4 (podNetworking []) (netOf ''vlan'') (start emptyKernel)) =
     netOf ''vlan''"
proof -
  obtain r n' w' where a:
    "kvmSetupNetAddressing noIP4 pod (netOf ''bridge'') ''tap0'' (start emptyKernel) = ((r, n'), w')"
    by (metis surj_pair)
  obtain an' v' where b:
    "teardownKvmNet noIP4 (podNetworking []) (netOf ''bridge'') (start emptyKernel) = (an', v')"
    by (metis surj_pair)
  obtain an2 v2 where c:
    "teardownKvmNet noIP4 (podNetworking []) (netOf ''vlan'') (start emptyKernel) = (an2, v2)"
    by (metis surj_pair)
  have fwd: "fst (ip_EnableIP4Forward noIP4 (sys (start emptyKernel))) = None"
    by (simp add: noIP4_def refhost_sel)
  have ipam: "IPAM_Type (Conf (netOf ''bridge'')) = ''host-local''"
    by (simp add: netOf_def zero_NetConf_def)
  have tr: "trace v' =
      [EvRemovePersistentIface [],
       EvExecNetPlugin ''DEL''
         ((netOf ''bridge'')\<lparr>Conf := (Conf (netOf ''bridge''))\<lparr>Conf_Type := ''host-local''\<rparr>\<rparr>) []]"
    using b
    by (auto simp: teardownKvmNet_def teardownRelease_def call_def Let_def noIP4_def refhost_sel
        netOf_def zero_NetConf_def zero_NetInfo_def k_RemovePersistentIface_def start_def
        emptyKernel_def)
  have tr2: "trace v2 = [EvPrintf ''unsupported network type: %q'' [ArgStr ''vlan'']]"
    using c
    by (auto simp: teardownKvmNet_def logE_def netOf_def zero_NetConf_def start_def)
  have ne: "netOf ''bridge'' \<noteq>
      (netOf ''bridge'')\<lparr>Conf := (Conf (netOf ''bridge''))\<lparr>Conf_Type := ''host-local''\<rparr>\<rparr>"
    by (simp add: netOf_def zero_NetConf_def ActiveNet.equality)
  from allocator_invocation_type_substitution
    [where h = noIP4 and env = pod and n = "netOf ''bridge''" and ifName = "''tap0''"
       and w = "start emptyKernel" and r = r and n' = n' and w' = w'
       and net = "podNetworking []" and an = "netOf ''bridge''" and v = "start emptyKernel"
       and an' = an' and v' = v']
    a b fwd ipam tr
  have 1: "Conf n' = Conf (netOf ''bridge'') \<and>
      trace w' = [EvEnableIP4Forward,
        EvExecNetPlugin ''ADD''
          ((netOf ''bridge'')\<lparr>Conf := (Conf (netOf ''bridge''))\<lparr>Conf_Type := ''host-local''\<rparr>\<rparr>)
          ''tap0''] \<and>
      an' = (netOf ''bridge'')\<lparr>Conf := (Conf (netOf ''bridge''))\<lparr>Conf_Type := ''host-local''\<rparr>\<rparr>"
    by (auto simp: start_def)
  from allocator_invocation_type_substitution
    [where h = noIP4 and env = pod and n = "netOf ''bridge''" and ifName = "''tap0''"
       and w = "start emptyKernel" and r = r and n' = n' and w' = w'
       and net = "podNetworking []" and an = "netOf ''vlan''" and v = "start emptyKernel"
       and an' = an2 and v' = v2]
    c tr2
  have 2: "an2 = netOf ''vlan''"
    by (auto simp: start_def)
  have 3: "r = Some (Errorf ''net-plugin returned no IPv4 configuration'' [])"
    using a by (simp add: kvmSetupNetAddressing_def call_def Let_def noIP4_def refhost_sel
        start_def)
  from 1 2 3 show ?thesis
    by (simp add: a b c)
qed

section \<open>The bridge\<close>

lemma ensureBridgeIsUp_existing_bridge:
  assumes "netlink_LinkAdd h (newBridge brName m) (sys w) = (Inl EEXIST, s1)"
    and "netlink_LinkByName h brName s1 = (Inr l, s2)"
    and "isBridge l"
    and "netlink_LinkSetUp h l s2 = (None, s3)"
  shows "ensureBridgeIsUp h brName m w =
     (Inr l, \<lparr>sys = s3, trace = trace w @
                [EvLinkAdd (newBridge brName m), EvLinkByName brName, EvLinkSetUp l]\<rparr>)"
  using assms
  by (cases l)
    (simp_all add: ensureBridgeIsUp_def bridgeByName_def call_def newBridge_def isBridge_def)

lemma ensureBridgeIsUp_name_conflict:
  assumes "netlink_LinkAdd h (newBridge brName m) (sys w) = (Inl EEXIST, s1)"
    and "netlink_LinkByName h brName s1 = (Inr l, s2)"
    and "\<not> isBridge l"
  shows "ensureBridgeIsUp h brName m w =
     (Inl (Errorf ''%q already exists but is not a bridge'' [ArgStr brName]),
      \<lparr>sys = s2, trace = trace w @ [EvLinkAdd (newBridge brName m), EvLinkByName brName]\<rparr>)"
  using assms
  by (cases l)
    (simp_all add: ensureBridgeIsUp_def bridgeByName_def call_def newBridge_def isBridge_def)

lemma find_fresh: "\<not> list_ex P xs \<Longrightarrow> P x \<Longrightarrow> find P (xs @ [x]) = Some x"
  by (induction xs) auto

lemma list_ex_find: "list_ex P xs \<Longrightarrow> \<exists>x. find P xs = Some x"
  by (induction xs) auto

lemma find_list_ex: "find P xs = Some x \<Longrightarrow> list_ex P xs \<and> P x"
  by (induction xs) (auto split: if_splits)

lemma named_setIndex: "named name (setIndex i l) = named name l"
  by (cases l) (simp_all add: named_def)

lemma isBridge_setIndex: "isBridge (setIndex i l) = isBridge l"
  by (cases l) (simp_all add: isBridge_def)

text \<open>On the reference kernel, a bridge that \<open>ensureBridgeIsUp\<close> has returned is the link the
  kernel finds under that name.\<close>

lemma refhost_ensured:
  assumes "ensureBridgeIsUp refhost brName m \<lparr>sys = k, trace = t\<rparr> = (Inr b, w1)"
  shows "find (named brName) (k_links (sys w1)) = Some b \<and> isBridge b"
proof (cases "list_ex (named brName) (k_links k)")
  case True
  then obtain l where l: "find (named brName) (k_links k) = Some l"
    by (auto dest: list_ex_find)
  then have nl: "named brName l"
    by (auto dest: find_list_ex)
  have add: "k_LinkAdd (newBridge brName m) k = (Inl EEXIST, k)"
    using True by (simp add: k_LinkAdd_def newBridge_def)
  have look: "k_LinkByName brName k = (Inr l, k)"
    using l by (simp add: k_LinkByName_def)
  have up: "k_LinkSetUp l k = (None, k)"
    using True nl by (simp add: k_LinkSetUp_def) (simp add: named_def)
  from assms l look up show ?thesis
    by (cases l)
      (auto simp: ensureBridgeIsUp_def bridgeByName_def call_def refhost_sel add
        isBridge_def newBridge_def [symmetric])
next
  case False
  let ?b = "setIndex (freshIndex k) (newBridge brName m)"
  have n: "named brName ?b"
    by (simp add: named_setIndex) (simp add: named_def newBridge_def)
  from find_fresh [OF False n] have f: "find (named brName) (k_links k @ [?b]) = Some ?b" .
  have ex: "list_ex (named brName) (k_links k @ [?b])"
    using n by (simp add: list_ex_iff)
  have "isBridge ?b"
    by (simp add: isBridge_setIndex) (simp add: isBridge_def newBridge_def)
  with False assms f ex show ?thesis
    by (auto simp: ensureBridgeIsUp_def call_def refhost_sel k_LinkAdd_def k_LinkSetUp_def
        newBridge_def named_def split: if_splits)
qed

lemma refhost_ensure_again:
  assumes "find (named brName) (k_links k) = Some b" and "isBridge b"
  shows "ensureBridgeIsUp refhost brName m \<lparr>sys = k, trace = t\<rparr> =
     (Inr b, \<lparr>sys = k, trace = t @
                [EvLinkAdd (newBridge brName m), EvLinkByName brName, EvLinkSetUp b]\<rparr>)"
proof -
  from assms(1) have nb: "named brName b" and ex: "list_ex (named brName) (k_links k)"
    by (auto dest: find_list_ex)
  have add: "netlink_LinkAdd refhost (newBridge brName m) (sys \<lparr>sys = k, trace = t\<rparr>) =
      (Inl EEXIST, k)"
    using ex by (simp add: refhost_sel k_LinkAdd_def newBridge_def)
  have look: "netlink_LinkByName refhost brName k = (Inr b, k)"
    using assms(1) by (simp add: refhost_sel k_LinkByName_def)
  have up: "netlink_LinkSetUp refhost b k = (None, k)"
    using ex nb by (simp add: refhost_sel k_LinkSetUp_def) (simp add: named_def)
  from ensureBridgeIsUp_existing_bridge [OF add look assms(2) up] show ?thesis
    by simp
qed

text \<open>
  C8. When adding the bridge reports that the name exists, \<open>ensureBridgeIsUp\<close> adds nothing
  and looks the link of that name up: if it is a bridge and is brought up, the result is that
  very link; if it is not a bridge, the result is the error that the name is taken by
  something that is not a bridge. On the reference kernel, where a name belongs to one link,
  a second \<open>ensureBridgeIsUp\<close> after a successful one returns the same bridge and leaves the
  kernel as the first one left it.
\<close>

theorem ensureBridgeIsUp_idempotent:
  "(netlink_LinkAdd h (newBridge brName m) (sys w) = (Inl EEXIST, s1) \<and>
    netlink_LinkByName h brName s1 = (Inr l, s2) \<longrightarrow>
      (isBridge l \<and> netlink_LinkSetUp h l s2 = (None, s3) \<longrightarrow>
         ensureBridgeIsUp h brName m w =
           (Inr l, \<lparr>sys = s3, trace = trace w @
                      [EvLinkAdd (newBridge brName m), EvLinkByName brName, EvLinkSetUp l]\<rparr>)) \<and>
      (\<not> isBridge l \<longrightarrow>
         ensureBridgeIsUp h brName m w =
           (Inl (Errorf ''%q already exists but is not a bridge'' [ArgStr brName]),
            \<lparr>sys = s2, trace = trace w @
                      [EvLinkAdd (newBridge brName m), EvLinkByName brName]\<rparr>))) \<and>
   (ensureBridgeIsUp refhost brName m \<lparr>sys = k, trace = t\<rparr> = (Inr b, w1) \<longrightarrow>
      ensureBridgeIsUp refhost brName m \<lparr>sys = sys w1, trace = t'\<rparr> =
        (Inr b, \<lparr>sys = sys w1, trace = t' @
                   [EvLinkAdd (newBridge brName m), EvLinkByName brName, EvLinkSetUp b]\<rparr>))"
proof (intro conjI impI)
  assume a: "netlink_LinkAdd h (newBridge brName m) (sys w) = (Inl EEXIST, s1) \<and>
    netlink_LinkByName h brName s1 = (Inr l, s2)"
    and b: "isBridge l \<and> netlink_LinkSetUp h l s2 = (None, s3)"
  then show "ensureBridgeIsUp h brName m w =
           (Inr l, \<lparr>sys = s3, trace = trace w @
                      [EvLinkAdd (newBridge brName m), EvLinkByName brName, EvLinkSetUp l]\<rparr>)"
    by (auto intro: ensureBridgeIsUp_existing_bridge)
next
  assume a: "netlink_LinkAdd h (newBridge brName m) (sys w) = (Inl EEXIST, s1) \<and>
    netlink_LinkByName h brName s1 = (Inr l, s2)"
    and b: "\<not> isBridge l"
  then show "ensureBridgeIsUp h brName m w =
           (Inl (Errorf ''%q already exists but is not a bridge'' [ArgStr brName]),
            \<lparr>sys = s2, trace = trace w @
                      [EvLinkAdd (newBridge brName m), EvLinkByName brName]\<rparr>)"
    by (auto intro: ensureBridgeIsUp_name_conflict)
next
  assume "ensureBridgeIsUp refhost brName m \<lparr>sys = k, trace = t\<rparr> = (Inr b, w1)"
  from refhost_ensured [OF this]
  show "ensureBridgeIsUp refhost brName m \<lparr>sys = sys w1, trace = t'\<rparr> =
        (Inr b, \<lparr>sys = sys w1, trace = t' @
                   [EvLinkAdd (newBridge brName m), EvLinkByName brName, EvLinkSetUp b]\<rparr>)"
    by (auto intro: refhost_ensure_again)
qed

theorem ensureBridgeIsUp_idempotent_witness:
  "ensureBridgeIsUp refhost ''kvm-cni0'' 1500 (start emptyKernel) =
     (Inr cni0, \<lparr>sys = emptyKernel\<lparr>k_links := [cni0]\<rparr>,
                 trace = [EvLinkAdd (newBridge ''kvm-cni0'' 1500), EvLinkSetUp cni0]\<rparr>) \<and>
   ensureBridgeIsUp refhost ''kvm-cni0'' 1500 (start (emptyKernel\<lparr>k_links := [cni0]\<rparr>)) =
     (Inr cni0, \<lparr>sys = emptyKernel\<lparr>k_links := [cni0]\<rparr>,
                 trace = [EvLinkAdd (newBridge ''kvm-cni0'' 1500), EvLinkByName ''kvm-cni0'',
                          EvLinkSetUp cni0]\<rparr>) \<and>
   ensureBridgeIsUp refhost ''kvm-cni0'' 1500 (start nameTaken) =
     (Inl (Errorf ''%q already exists but is not a bridge'' [ArgStr ''kvm-cni0'']),
      \<lparr>sys = nameTaken,
       trace = [EvLinkAdd (newBridge ''kvm-cni0'' 1500), EvLinkByName ''kvm-cni0'']\<rparr>)"
proof -
  let ?k1 = "emptyKernel\<lparr>k_links := [cni0]\<rparr>"
  have first: "ensureBridgeIsUp refhost ''kvm-cni0'' 1500 \<lparr>sys = emptyKernel, trace = []\<rparr> =
     (Inr cni0, \<lparr>sys = ?k1, trace = [EvLinkAdd (newBridge ''kvm-cni0'' 1500), EvLinkSetUp cni0]\<rparr>)"
    by (simp add: ensureBridgeIsUp_def call_def refhost_sel k_LinkAdd_def k_LinkSetUp_def
        emptyKernel_def cni0_def newBridge_def freshIndex_def named_def)
  have add: "netlink_LinkAdd refhost (newBridge ''kvm-cni0'' 1500) (sys (start nameTaken)) =
      (Inl EEXIST, nameTaken)"
    by (simp add: refhost_sel k_LinkAdd_def nameTaken_def emptyKernel_def newBridge_def
        named_def start_def)
  have look: "netlink_LinkByName refhost ''kvm-cni0'' nameTaken =
      (Inr (Device \<lparr>Attr_Name = ''kvm-cni0'', Attr_MTU = 1500, Attr_Index = 1,
                    Attr_ParentIndex = 0\<rparr>), nameTaken)"
    by (simp add: refhost_sel k_LinkByName_def nameTaken_def emptyKernel_def named_def)
  have dev: "\<not> isBridge (Device \<lparr>Attr_Name = ''kvm-cni0'', Attr_MTU = 1500, Attr_Index = 1,
                    Attr_ParentIndex = 0\<rparr>)"
    by (simp add: isBridge_def)
  note inst = ensureBridgeIsUp_idempotent
    [where h = refhost and brName = "''kvm-cni0''" and m = 1500 and w = "start nameTaken"
       and ?s1.0 = nameTaken and ?s2.0 = nameTaken
       and l = "Device \<lparr>Attr_Name = ''kvm-cni0'', Attr_MTU = 1500, Attr_Index = 1,
                        Attr_ParentIndex = 0\<rparr>"
       and k = emptyKernel and t = "[]" and t' = "[]" and b = cni0
       and ?w1.0 = "\<lparr>sys = ?k1, trace = [EvLinkAdd (newBridge ''kvm-cni0'' 1500),
                                            EvLinkSetUp cni0]\<rparr>"]
  from inst first add look dev show ?thesis
    by (simp add: start_def)
qed

section \<open>Routes\<close>













lemmas refkernel_defs =
  k_LinkByName_def k_LinkAdd_def k_LinkDel_def k_LinkSetUp_def k_CreatePersistentIface_def
  k_RemovePersistentIface_def k_AddrList_def k_AddrAdd_def k_RouteList_def k_RouteDel_def
  k_RouteAdd_def k_Open_Scan_def freshIndex_def named_def emptyKernel_def start_def

lemmas example_defs =
  pod_def netOf_def zero_NetConf_def zero_NetInfo_def zero_BridgeNetConf_def
  zero_MacVTapNetConf_def defaultMTU_def defaultBrName_def ipamResult_def addressed_def
  tap_def cni0_def staleRoute_def withStaleRoute_def





section \<open>Teardown\<close>

lemma teardownRelease_releasedIn:
  assumes "teardownRelease h n an w = (an', w')"
  shows "\<exists>es. trace w' = trace w @ es \<and> releasedIn h n an es"
  using assms
  by (auto simp: teardownRelease_def call_def logE_def Let_def releasedIn_def released_def
      unmasqueraded_def split: prod.splits option.splits sum.splits if_splits)

lemma teardownKvmNet_attempted:
  assumes "teardownKvmNet h n an w = (an', w')"
  shows "\<exists>es. trace w' = trace w @ es \<and> attempted h n an es"
proof -
  have rel: "\<exists>es. trace w2 = trace w @ pre @ es \<and> releasedIn h n an es"
    if "teardownRelease h n an w1 = (an2, w2)" and "trace w1 = trace w @ pre"
    for w1 an2 w2 pre
    using teardownRelease_releasedIn [OF that(1)] that(2) by auto
  consider (tap) "Conf_Type (Conf an) = ''ptp'' \<or> Conf_Type (Conf an) = ''bridge''"
    | (vlan) "\<not> (Conf_Type (Conf an) = ''ptp'' \<or> Conf_Type (Conf an) = ''bridge'')"
        "Conf_Type (Conf an) = ''macvlan''"
    | (other) "\<not> (Conf_Type (Conf an) = ''ptp'' \<or> Conf_Type (Conf an) = ''bridge'')"
        "Conf_Type (Conf an) \<noteq> ''macvlan''"
    by blast
  then show ?thesis
  proof cases
    case tap
    obtain r w1 where c: "call (EvRemovePersistentIface (IfName (Runtime an)))
        (tuntap_RemovePersistentIface h (IfName (Runtime an))) w = (r, w1)"
      by (metis surj_pair)
    then have t1: "trace w1 = trace w @ [EvRemovePersistentIface (IfName (Runtime an))]"
      by (auto simp: call_def split: prod.splits)
    from assms tap c have "teardownRelease h n an w1 = (an', w')"
      by (auto simp: teardownKvmNet_def)
    from rel [OF this t1] tap show ?thesis
      by (auto simp: attempted_def)
  next
    case vlan
    obtain r w1 where c: "call (EvLinkByName (IfName (Runtime an)))
        (netlink_LinkByName h (IfName (Runtime an))) w = (r, w1)"
      by (metis surj_pair)
    then have t1: "trace w1 = trace w @ [EvLinkByName (IfName (Runtime an))]"
      by (auto simp: call_def split: prod.splits)
    show ?thesis
    proof (cases r)
      case (Inl err)
      with assms vlan c t1 show ?thesis
        by (auto simp: teardownKvmNet_def attempted_def logE_def)
    next
      case (Inr link)
      obtain r2 w2 where d: "call (EvLinkDel link) (netlink_LinkDel h link) w1 = (r2, w2)"
        by (metis surj_pair)
      then have t2: "trace w2 = trace w @ [EvLinkByName (IfName (Runtime an)), EvLinkDel link]"
        using t1 by (auto simp: call_def split: prod.splits)
      show ?thesis
      proof (cases r2)
        case (Some err)
        with assms vlan c Inr d t2 show ?thesis
          by (auto simp: teardownKvmNet_def attempted_def logE_def)
      next
        case None
        with assms vlan c Inr d have "teardownRelease h n an w2 = (an', w')"
          by (auto simp: teardownKvmNet_def)
        from rel [OF this t2] vlan show ?thesis
          by (auto simp: attempted_def)
      qed
    qed
  next
    case other
    with assms show ?thesis
      by (auto simp: teardownKvmNet_def attempted_def logE_def)
  qed
qed

lemma teardownLoop_attempted:
  "teardownLoop h n ans w = (ans', w') \<Longrightarrow>
   \<exists>segs. trace w' = trace w @ concat segs \<and> list_all2 (attempted h n) ans segs"
proof (induction ans arbitrary: w ans' w')
  case Nil
  then show ?case by simp
next
  case (Cons an ans)
  obtain an1 w1 where one: "teardownKvmNet h n an w = (an1, w1)"
    by (metis surj_pair)
  obtain ans2 w2 where more: "teardownLoop h n ans w1 = (ans2, w2)"
    by (metis surj_pair)
  from Cons.prems one more have w': "w' = w2"
    by simp
  from teardownKvmNet_attempted [OF one] obtain es where
    es: "trace w1 = trace w @ es" "attempted h n an es"
    by blast
  from Cons.IH [OF more] obtain segs where
    segs: "trace w2 = trace w1 @ concat segs" "list_all2 (attempted h n) ans segs"
    by blast
  have "trace w' = trace w @ concat (es # segs) \<and>
      list_all2 (attempted h n) (an # ans) (es # segs)"
    using w' es segs by simp
  then show ?case by blast
qed

lemma teardownRelease_releasedFrom:
  "teardownRelease h n an w = (an', w') \<Longrightarrow> releasedFrom h n an w w'"
  by (auto simp: teardownRelease_def releasedFrom_def call_def logE_def Let_def released_def
      unmasqueraded_def pluginFailure_def masqFailure_def
      split: prod.splits option.splits sum.splits if_splits)

lemma teardownKvmNet_cleanedUp:
  assumes "teardownKvmNet h n an w = (an', w')"
  shows "cleanedUp h n an w w'"
proof -
  have other: "logE ev w = \<lparr>sys = sys w, trace = trace w @ [ev]\<rparr>" for ev
    by (cases w) (simp add: logE_def)
  show ?thesis
    using assms
    by (auto simp: teardownKvmNet_def cleanedUp_def call_def logE_def other
        split: prod.splits option.splits sum.splits if_splits
        dest: teardownRelease_releasedFrom)
qed

lemma teardownLoop_inTurn:
  "teardownLoop h n ans w = (ans', w') \<Longrightarrow> inTurn (cleanedUp h n) ans w w'"
proof (induction ans arbitrary: w ans' w')
  case Nil
  then show ?case by simp
next
  case (Cons an ans)
  obtain an1 w1 where one: "teardownKvmNet h n an w = (an1, w1)"
    by (metis surj_pair)
  obtain ans2 w2 where more: "teardownLoop h n ans w1 = (ans2, w2)"
    by (metis surj_pair)
  from Cons.prems one more have "w' = w2"
    by simp
  with teardownKvmNet_cleanedUp [OF one] Cons.IH [OF more] show ?case
    by auto
qed

text \<open>
  C3, as stated, fails for macvlan and for unsupported types: teardown ends the round of a
  descriptor with \<open>continue\<close> when the macvlan link is not found or cannot be deleted, and
  when the type is not one it knows. On a host without the link, the teardown of a macvlan
  network that asks for masquerading logs the failed lookup and neither runs the plugin
  with \<open>DEL\<close> nor removes the masquerading rule.
\<close>

theorem kvmTeardown_skips_release_of_macvlan:
  "IPMasq (Conf (masqNet ''macvlan'' ''rkt-0123-vtap0'')) \<and>
   trace (snd (kvmTeardown refhost (podNetworking [masqNet ''macvlan'' ''rkt-0123-vtap0''])
                 (start emptyKernel))) =
     [EvUnforwardPorts, EvLinkByName ''rkt-0123-vtap0'',
      EvPrintE ''cannot find link `%v`'' [ArgStr ''rkt-0123-vtap0''] (Foreign ''Link not found'')]"
  by (simp add: kvmTeardown_def teardownKvmNets_def teardownKvmNet_def call_def logE_def
      refhost_sel refkernel_defs podNetworking_def podEnv.extend_def masqNet_def example_defs)

text \<open>
  C3, amended. Teardown has no error to return, and whatever the calls answer it first
  removes the forwarded ports (logging a failure) and then goes through every descriptor of
  the aggregate in order, each with a round of its own (\<open>inTurn\<close>), and what a round does is
  decided by what the host answers in it (\<open>cleanedUp\<close>). The round of a ptp or bridge
  descriptor removes the tap device, runs the plugin with \<open>DEL\<close> and, when the descriptor
  asks for masquerading, removes the masquerading rule, whatever the earlier calls of the
  round answered. The round of a macvlan descriptor looks the link up: when the lookup fails
  it logs that and ends; when the link is found it deletes it, and when the deletion fails it
  logs that and ends; only when both succeeded does it go on to the plugin and the
  masquerading rule. The round of a descriptor of any other type only logs that the type is not
  supported. In particular the trace is that of the removal of the forwarded ports followed
  by one segment for each descriptor, of the shape \<open>attempted\<close> gives for it.
\<close>

theorem kvmTeardown_attempts:
  assumes "kvmTeardown h n w = (n', w')"
  shows "inTurn (cleanedUp h n) (nets n) (afterUnforward h n w) w' \<and>
    (\<exists>segs. list_all2 (attempted h n) (nets n) segs \<and>
       trace w' = trace w @ EvUnforwardPorts #
         (case fst (unforwardPorts h n (sys w)) of
            Some err \<Rightarrow> [EvPrintE ''error removing forwarded ports (kvm)'' [] err]
          | None \<Rightarrow> []) @ concat segs)"
proof -
  obtain r w1 where u: "call EvUnforwardPorts (unforwardPorts h n) w = (r, w1)"
    by (metis surj_pair)
  then have r: "r = fst (unforwardPorts h n (sys w))" and t1: "trace w1 = trace w @ [EvUnforwardPorts]"
    by (auto simp: call_def split: prod.splits)
  let ?w2 = "case r of Some err \<Rightarrow> logE (EvPrintE ''error removing forwarded ports (kvm)'' [] err) w1
             | None \<Rightarrow> w1"
  have t2: "trace ?w2 = trace w @ EvUnforwardPorts #
       (case r of Some err \<Rightarrow> [EvPrintE ''error removing forwarded ports (kvm)'' [] err]
        | None \<Rightarrow> [])"
    using t1 by (simp add: logE_def split: option.splits)
  have w2: "?w2 = afterUnforward h n w"
    using u by (auto simp: afterUnforward_def call_def logE_def split: prod.splits option.splits)
  obtain ans w3 where l: "teardownLoop h n (nets n) ?w2 = (ans, w3)"
    by (metis surj_pair)
  from assms u l have w': "w' = w3"
    by (auto simp: kvmTeardown_def teardownKvmNets_def split: option.splits)
  from teardownLoop_inTurn [OF l] w2 w'
  have "inTurn (cleanedUp h n) (nets n) (afterUnforward h n w) w'"
    by simp
  moreover from w' teardownLoop_attempted [OF l] t2 r
  have "\<exists>segs. list_all2 (attempted h n) (nets n) segs \<and>
       trace w' = trace w @ EvUnforwardPorts #
         (case fst (unforwardPorts h n (sys w)) of
            Some err \<Rightarrow> [EvPrintE ''error removing forwarded ports (kvm)'' [] err]
          | None \<Rightarrow> []) @ concat segs"
    by auto
  ultimately show ?thesis
    by blast
qed

theorem kvmTeardown_attempts_witness:
  "trace (snd (kvmTeardown refhost
        (podNetworking [masqNet ''ptp'' ''rkt-0123-tap0'', masqNet ''vlan'' ''eth1''])
        (start emptyKernel))) =
     [EvUnforwardPorts,
      EvRemovePersistentIface ''rkt-0123-tap0'',
      released (masqNet ''ptp'' ''rkt-0123-tap0''),
      unmasqueraded refhost (podNetworking []) (masqNet ''ptp'' ''rkt-0123-tap0''),
      EvPrintf ''unsupported network type: %q'' [ArgStr ''vlan'']] \<and>
   attempted refhost (podNetworking [masqNet ''ptp'' ''rkt-0123-tap0'', masqNet ''vlan'' ''eth1''])
     (masqNet ''ptp'' ''rkt-0123-tap0'')
     [EvRemovePersistentIface ''rkt-0123-tap0'',
      released (masqNet ''ptp'' ''rkt-0123-tap0''),
      unmasqueraded refhost (podNetworking []) (masqNet ''ptp'' ''rkt-0123-tap0'')] \<and>
   inTurn
     (cleanedUp refhost
        (podNetworking [masqNet ''ptp'' ''rkt-0123-tap0'', masqNet ''vlan'' ''eth1'']))
     [masqNet ''ptp'' ''rkt-0123-tap0'', masqNet ''vlan'' ''eth1'']
     \<lparr>sys = emptyKernel, trace = [EvUnforwardPorts]\<rparr>
     (snd (kvmTeardown refhost
        (podNetworking [masqNet ''ptp'' ''rkt-0123-tap0'', masqNet ''vlan'' ''eth1''])
        (start emptyKernel))) \<and>
   cleanedUp refhost (podNetworking []) (masqNet ''macvlan'' ''rkt-0123-vtap0'')
     (start emptyKernel)
     \<lparr>sys = emptyKernel,
      trace = [EvLinkByName ''rkt-0123-vtap0'',
               EvPrintE ''cannot find link `%v`'' [ArgStr ''rkt-0123-vtap0'']
                 (Foreign ''Link not found'')]\<rparr> \<and>
   cleanedUp refhost (podNetworking []) (masqNet ''macvlan'' ''eth0'') (start withEth0)
     \<lparr>sys = emptyKernel,
      trace = [EvLinkByName ''eth0'', EvLinkDel eth0, released (masqNet ''macvlan'' ''eth0''),
               unmasqueraded refhost (podNetworking []) (masqNet ''macvlan'' ''eth0'')]\<rparr>"
proof -
  let ?n = "podNetworking [masqNet ''ptp'' ''rkt-0123-tap0'', masqNet ''vlan'' ''eth1'']"
  let ?run = "kvmTeardown refhost ?n (start emptyKernel)"
  have tr: "trace (snd ?run) =
     [EvUnforwardPorts,
      EvRemovePersistentIface ''rkt-0123-tap0'',
      released (masqNet ''ptp'' ''rkt-0123-tap0''),
      unmasqueraded refhost (podNetworking []) (masqNet ''ptp'' ''rkt-0123-tap0''),
      EvPrintf ''unsupported network type: %q'' [ArgStr ''vlan'']]"
    by (simp add: kvmTeardown_def teardownKvmNets_def teardownKvmNet_def teardownRelease_def
        call_def logE_def Let_def refhost_sel refkernel_defs podNetworking_def podEnv.extend_def
        masqNet_def example_defs released_def unmasqueraded_def getChainName_def)
  have "?run = (fst ?run, snd ?run)"
    by simp
  note both = kvmTeardown_attempts [OF this]
  from both have turn: "inTurn (cleanedUp refhost ?n) (nets ?n)
      (afterUnforward refhost ?n (start emptyKernel)) (snd ?run)"
    by blast
  have au: "afterUnforward refhost ?n (start emptyKernel) =
      \<lparr>sys = emptyKernel, trace = [EvUnforwardPorts]\<rparr>"
    by (simp add: afterUnforward_def refhost_sel start_def)
  have nets: "nets ?n = [masqNet ''ptp'' ''rkt-0123-tap0'', masqNet ''vlan'' ''eth1'']"
    by (simp add: podNetworking_def podEnv.extend_def)
  have notfound: "cleanedUp refhost (podNetworking []) (masqNet ''macvlan'' ''rkt-0123-vtap0'')
     (start emptyKernel)
     \<lparr>sys = emptyKernel,
      trace = [EvLinkByName ''rkt-0123-vtap0'',
               EvPrintE ''cannot find link `%v`'' [ArgStr ''rkt-0123-vtap0'']
                 (Foreign ''Link not found'')]\<rparr>"
    by (simp add: cleanedUp_def refhost_sel refkernel_defs masqNet_def example_defs)
  have deleted: "cleanedUp refhost (podNetworking []) (masqNet ''macvlan'' ''eth0'')
     (start withEth0)
     \<lparr>sys = emptyKernel,
      trace = [EvLinkByName ''eth0'', EvLinkDel eth0, released (masqNet ''macvlan'' ''eth0''),
               unmasqueraded refhost (podNetworking []) (masqNet ''macvlan'' ''eth0'')]\<rparr>"
    by (simp add: cleanedUp_def releasedFrom_def pluginFailure_def masqFailure_def released_def
        unmasqueraded_def getChainName_def refhost_sel refkernel_defs masqNet_def example_defs
        withEth0_def eth0_def podNetworking_def podEnv.extend_def podEnv.truncate_def)
  from both obtain segs where
    segs: "list_all2 (attempted refhost ?n) (nets ?n) segs" and
    cat: "trace (snd ?run) = trace (start emptyKernel) @ EvUnforwardPorts #
       (case fst (unforwardPorts refhost ?n (sys (start emptyKernel))) of
          Some err \<Rightarrow> [EvPrintE ''error removing forwarded ports (kvm)'' [] err]
        | None \<Rightarrow> []) @ concat segs"
    by blast
  from segs obtain s1 s2 where s: "segs = [s1, s2]"
    and a1: "attempted refhost ?n (masqNet ''ptp'' ''rkt-0123-tap0'') s1"
    and a2: "attempted refhost ?n (masqNet ''vlan'' ''eth1'') s2"
    by (auto simp: podNetworking_def podEnv.extend_def list_all2_Cons1)
  from a2 have s2: "s2 = [EvPrintf ''unsupported network type: %q'' [ArgStr ''vlan'']]"
    by (simp add: attempted_def masqNet_def example_defs)
  from cat tr s s2 have "s1 = [EvRemovePersistentIface ''rkt-0123-tap0'',
      released (masqNet ''ptp'' ''rkt-0123-tap0''),
      unmasqueraded refhost (podNetworking []) (masqNet ''ptp'' ''rkt-0123-tap0'')]"
    by (simp add: refhost_sel start_def)
  with a1 tr turn au nets notfound deleted show ?thesis
    by simp
qed

section \<open>The flannel transformation\<close>

lemma SplitN_example:
  "SplitN ''FLANNEL_NETWORK=10.1.0.0/16'' CHR ''='' = [''FLANNEL_NETWORK'', ''10.1.0.0/16'']"
  "SplitN ''FLANNEL_SUBNET=10.1.17.0/24'' CHR ''='' = [''FLANNEL_SUBNET'', ''10.1.17.0/24'']"
  "SplitN ''FLANNEL_MTU=1472'' CHR ''='' = [''FLANNEL_MTU'', ''1472'']"
  "SplitN ''FLANNEL_IPMASQ=true'' CHR ''='' = [''FLANNEL_IPMASQ'', ''true'']"
  by (simp_all add: SplitN_def)

lemma scanLines_example:
  assumes "net_ParseCIDR h ''10.1.0.0/16'' = Inr network"
    and "net_ParseCIDR h ''10.1.17.0/24'' = Inr subnet"
    and "strconv_ParseUint h ''1472'' = Inr 1472"
  shows "scanLines h exampleLease zero_subnetEnv =
     Ok \<lparr>nw = Some network, sn = Some subnet, mtu = 1472, ipmasq = True\<rparr>"
  using assms
  by (simp add: exampleLease_def SplitN_example at_def zero_subnetEnv_def)

text \<open>
  C4: with the lease of the example and the configuration \<open>{"name":"rktnet","type":"flannel"}\<close>
  (decoded: that name, that type, no delegate, the default lease file), the transformer
  replaces the descriptor by one whose configuration bytes are the encoding of the
  dictionary \<open>exampleDelegate\<close>: name \<open>rktnet\<close>, type \<open>bridge\<close>, \<open>ipMasq\<close> false, \<open>mtu\<close> 1472,
  \<open>isGateway\<close> true, and an \<open>ipam\<close> dictionary of type \<open>host-local\<close> with subnet
  \<open>10.1.17.0/24\<close> and one route, to \<open>10.1.0.0/16\<close>. Its parsed configuration has the same
  name, type, masquerading flag and MTU, and the IPAM type \<open>host-local\<close>.
\<close>

theorem kvmTransformFlannelNetwork_example:
  assumes "json_Unmarshal_FlannelNetConf h (ConfBytes net)
             (zero_FlannelNetConf\<lparr>SubnetFile := defaultSubnetFile\<rparr>) =
           Inr (zero_FlannelNetConf
                  \<lparr>Conf_Name := ''rktnet'', Conf_Type := ''flannel'',
                   SubnetFile := defaultSubnetFile\<rparr>)"
    and "os_Open_Scan h defaultSubnetFile (sys w) = (Inr (exampleLease, None), s)"
    and "net_ParseCIDR h ''10.1.0.0/16'' =
           Inr \<lparr>IPNet_IP = [10, 1, 0, 0], IPNet_Mask = [255, 255, 0, 0]\<rparr>"
    and "net_ParseCIDR h ''10.1.17.0/24'' =
           Inr \<lparr>IPNet_IP = [10, 1, 17, 0], IPNet_Mask = [255, 255, 255, 0]\<rparr>"
    and "IPNet_String h \<lparr>IPNet_IP = [10, 1, 17, 0], IPNet_Mask = [255, 255, 255, 0]\<rparr> =
           ''10.1.17.0/24''"
    and "strconv_ParseUint h ''1472'' = Inr 1472"
    and "json_Marshal h exampleDelegate = Inr bs"
  shows "kvmTransformFlannelNetwork h net w =
     (Ok \<lparr>ConfBytes = bs,
          Conf = \<lparr>Conf_Name = ''rktnet'', Conf_Type = ''bridge'', IPAM_Type = ''host-local'',
                  IPMasq = False, MTU = 1472\<rparr>,
          Runtime = zero_NetInfo\<lparr>Runtime_IP4 := Some zero_IPConfig\<rparr>\<rparr>,
      \<lparr>sys = s, trace = trace w @ [EvOpen defaultSubnetFile]\<rparr>)"
proof -
  define n where "n = zero_FlannelNetConf
    \<lparr>Conf_Name := ''rktnet'', Conf_Type := ''flannel'', SubnetFile := defaultSubnetFile\<rparr>"
  define fenv where "fenv =
    \<lparr>nw = Some \<lparr>IPNet_IP = [10, 1, 0, 0], IPNet_Mask = [255, 255, 0, 0]\<rparr>,
     sn = Some \<lparr>IPNet_IP = [10, 1, 17, 0], IPNet_Mask = [255, 255, 255, 0]\<rparr>,
     mtu = 1472, ipmasq = True\<rparr>"
  have conf: "loadFlannelNetConf h (ConfBytes net) = Inr n"
    using assms(1) by (simp add: loadFlannelNetConf_def n_def)
  have sf: "SubnetFile n = defaultSubnetFile" and dl: "Delegate n = None"
    by (simp_all add: n_def zero_FlannelNetConf_def)
  have lease: "loadFlannelSubnetEnv h defaultSubnetFile w =
      (Ok fenv, \<lparr>sys = s, trace = trace w @ [EvOpen defaultSubnetFile]\<rparr>)"
    using assms(2) scanLines_example [OF assms(3) assms(4) assms(6)]
    by (simp add: loadFlannelSubnetEnv_def call_def fenv_def)
  have fill: "fillDelegate h n fenv Map.empty = Ok exampleDelegate"
    using assms(5)
    by (simp add: fillDelegate_def hasKey_def index_def exampleDelegate_def n_def fenv_def
        zero_FlannelNetConf_def)
  have repl: "replaceNet h n exampleDelegate =
      Ok \<lparr>ConfBytes = bs,
          Conf = \<lparr>Conf_Name = ''rktnet'', Conf_Type = ''bridge'', IPAM_Type = ''host-local'',
                  IPMasq = False, MTU = 1472\<rparr>,
          Runtime = zero_NetInfo\<lparr>Runtime_IP4 := Some zero_IPConfig\<rparr>\<rparr>"
    using assms(7)
    by (simp add: replaceNet_def) (simp add: index_def exampleDelegate_def zero_NetConf_def
        n_def zero_FlannelNetConf_def)
  show ?thesis
    by (simp add: kvmTransformFlannelNetwork_def conf sf dl lease checkDelegate_def fill repl)
qed

theorem kvmTransformFlannelNetwork_example_witness:
  "kvmTransformFlannelNetwork (flannelHost None) (netOf ''flannel'') (start withLease) =
     (Ok \<lparr>ConfBytes = ''delegate'',
          Conf = \<lparr>Conf_Name = ''rktnet'', Conf_Type = ''bridge'', IPAM_Type = ''host-local'',
                  IPMasq = False, MTU = 1472\<rparr>,
          Runtime = zero_NetInfo\<lparr>Runtime_IP4 := Some zero_IPConfig\<rparr>\<rparr>,
      \<lparr>sys = withLease, trace = [EvOpen defaultSubnetFile]\<rparr>)"
proof -
  have a: "json_Unmarshal_FlannelNetConf (flannelHost None) (ConfBytes (netOf ''flannel''))
             (zero_FlannelNetConf\<lparr>SubnetFile := defaultSubnetFile\<rparr>) =
           Inr (zero_FlannelNetConf
                  \<lparr>Conf_Name := ''rktnet'', Conf_Type := ''flannel'',
                   SubnetFile := defaultSubnetFile\<rparr>)"
    by (simp add: flannelHost_def zero_FlannelNetConf_def)
  have b: "os_Open_Scan (flannelHost None) defaultSubnetFile (sys (start withLease)) =
      (Inr (exampleLease, None), withLease)"
    by (simp add: flannelHost_def refhost_sel k_Open_Scan_def withLease_def start_def
        emptyKernel_def)
  have c: "net_ParseCIDR (flannelHost None) ''10.1.0.0/16'' =
           Inr \<lparr>IPNet_IP = [10, 1, 0, 0], IPNet_Mask = [255, 255, 0, 0]\<rparr>"
    by (simp add: flannelHost_def refhost_sel k_ParseCIDR_def SplitN_def parseIPv4_def
        parseDec_def digitVal_def CIDRMask_def maskByte_def)
  have d: "net_ParseCIDR (flannelHost None) ''10.1.17.0/24'' =
           Inr \<lparr>IPNet_IP = [10, 1, 17, 0], IPNet_Mask = [255, 255, 255, 0]\<rparr>"
    by (simp add: flannelHost_def refhost_sel k_ParseCIDR_def SplitN_def parseIPv4_def
        parseDec_def digitVal_def CIDRMask_def maskByte_def)
  have e: "IPNet_String (flannelHost None)
             \<lparr>IPNet_IP = [10, 1, 17, 0], IPNet_Mask = [255, 255, 255, 0]\<rparr> = ''10.1.17.0/24''"
    by (simp add: flannelHost_def refhost_sel k_IPNet_String_def dotted_def Itoa.simps
        onesOf_def maskByte_def)
  have f: "strconv_ParseUint (flannelHost None) ''1472'' = Inr 1472"
    by (simp add: flannelHost_def refhost_sel k_ParseUint_def parseDec_def digitVal_def)
  have g: "json_Marshal (flannelHost None) exampleDelegate = Inr ''delegate''"
    by (simp add: flannelHost_def refhost_sel)
  from kvmTransformFlannelNetwork_example [OF a b c d e f g] show ?thesis
    by (simp add: start_def)
qed

lemma checkDelegate_rejects:
  assumes "hasKey d ''name'' \<or> hasKey d ''ipam'' \<or>
           (hasKey d ''type'' \<and> \<not> isString (index d ''type''))"
  shows "\<exists>e. checkDelegate (Some d) = Inl e \<and> e \<in> delegateErrors"
  using assms by (auto simp: checkDelegate_def delegateErrors_def)

text \<open>
  C6, as stated, fails: the lease file is read before the delegate is looked at, and what
  the reader of the lease does decides the outcome. For a delegate with a \<open>name\<close> key, on a
  host without the lease file the transformer returns the error of opening the file, and on
  a host whose lease file is the line \<open>FLANNEL_MTU\<close> it panics; in neither case is the error
  about the delegate returned.
\<close>

theorem kvmTransformFlannelNetwork_delegate_name_unread_lease:
  "checkDelegate (Some [''name'' \<mapsto> VString ''mine'']) =
     Inl (Errorf '''delegate' dictionary must not have 'name' field, it'll be set by flannel'' []) \<and>
   fst (kvmTransformFlannelNetwork (flannelHost (Some [''name'' \<mapsto> VString ''mine'']))
          (netOf ''flannel'') (start emptyKernel)) =
     Err (Foreign ''no such file or directory'') \<and>
   fst (kvmTransformFlannelNetwork (flannelHost (Some [''name'' \<mapsto> VString ''mine'']))
          (netOf ''flannel'') (start leaseWithoutSeparator)) =
     Panic IndexOutOfRange"
proof -
  let ?h = "flannelHost (Some [''name'' \<mapsto> VString ''mine''])"
  have conf: "\<exists>n. loadFlannelNetConf ?h (ConfBytes (netOf ''flannel'')) = Inr n \<and>
      SubnetFile n = defaultSubnetFile"
    by (simp add: loadFlannelNetConf_def flannelHost_def zero_FlannelNetConf_def)
  have scan: "scanLines ?h [''FLANNEL_MTU''] zero_subnetEnv = Panic IndexOutOfRange"
    by (rule scanLines_key_without_separator) simp
  have missing: "loadFlannelSubnetEnv ?h defaultSubnetFile (start emptyKernel) =
      (Err (Foreign ''no such file or directory''),
       \<lparr>sys = emptyKernel, trace = [EvOpen defaultSubnetFile]\<rparr>)"
    by (simp add: loadFlannelSubnetEnv_def call_def flannelHost_def refhost_sel k_Open_Scan_def
        start_def emptyKernel_def)
  have broken: "loadFlannelSubnetEnv ?h defaultSubnetFile (start leaseWithoutSeparator) =
      (Panic IndexOutOfRange,
       \<lparr>sys = leaseWithoutSeparator, trace = [EvOpen defaultSubnetFile]\<rparr>)"
    using scan
    by (simp add: loadFlannelSubnetEnv_def call_def flannelHost_def refhost_sel k_Open_Scan_def
        start_def leaseWithoutSeparator_def emptyKernel_def del: scanLines.simps)
  have chk: "checkDelegate (Some [''name'' \<mapsto> VString ''mine'']) =
     Inl (Errorf '''delegate' dictionary must not have 'name' field, it'll be set by flannel'' [])"
    by (simp add: checkDelegate_def hasKey_def)
  from conf missing broken chk show ?thesis
    by (auto simp: kvmTransformFlannelNetwork_def)
qed

text \<open>
  C6, amended. Let the configuration of an overlay network decode to a delegate that has a
  \<open>name\<close> key or an \<open>ipam\<close> key, or a \<open>type\<close> key that is not a string. Whenever the reader of
  the lease returns, the transformer returns an error and the round of setup for that
  network ends with that error, wrapped, after a single call, the opening of the lease file:
  no call to the kernel is made for that network. The error is one of the three errors about
  the delegate when the lease was read, and the error of the reader when it was not.
\<close>

theorem kvmTransformFlannelNetwork_rejects_delegate:
  assumes "loadFlannelNetConf h (ConfBytes net) = Inr n"
    and "Delegate n = Some d"
    and "hasKey d ''name'' \<or> hasKey d ''ipam'' \<or>
         (hasKey d ''type'' \<and> \<not> isString (index d ''type''))"
    and "loadFlannelSubnetEnv h (SubnetFile n) w = (r, w1)"
    and "Conf_Type (Conf net) = ''flannel''"
  shows "trace w1 = trace w @ [EvOpen (SubnetFile n)] \<and>
     (\<forall>fenv. r = Ok fenv \<longrightarrow>
        (\<exists>e. e \<in> delegateErrors \<and> checkDelegate (Some d) = Inl e \<and>
           kvmTransformFlannelNetwork h net w = (Err e, w1) \<and>
           kvmSetupNet h env i net w =
             (Err (Wrap (Errorf ''cannot transform flannel network into basic network'' []) e),
              w1))) \<and>
     (\<forall>e. r = Err e \<longrightarrow>
        kvmTransformFlannelNetwork h net w = (Err e, w1) \<and>
        kvmSetupNet h env i net w =
          (Err (Wrap (Errorf ''cannot transform flannel network into basic network'' []) e),
           w1))"
proof (intro conjI allI impI)
  from assms(4) show "trace w1 = trace w @ [EvOpen (SubnetFile n)]"
    by (auto simp: loadFlannelSubnetEnv_def call_def
        split: prod.splits sum.splits result.splits option.splits)
next
  fix fenv
  assume ok: "r = Ok fenv"
  from checkDelegate_rejects [OF assms(3)] obtain e where
    e: "checkDelegate (Some d) = Inl e" "e \<in> delegateErrors"
    by blast
  have t: "kvmTransformFlannelNetwork h net w = (Err e, w1)"
    using assms(1,2,4) ok e(1) by (simp add: kvmTransformFlannelNetwork_def)
  then have "kvmSetupNet h env i net w =
      (Err (Wrap (Errorf ''cannot transform flannel network into basic network'' []) e), w1)"
    using assms(5) by (simp add: kvmSetupNet_def)
  with e t show "\<exists>e. e \<in> delegateErrors \<and> checkDelegate (Some d) = Inl e \<and>
           kvmTransformFlannelNetwork h net w = (Err e, w1) \<and>
           kvmSetupNet h env i net w =
             (Err (Wrap (Errorf ''cannot transform flannel network into basic network'' []) e),
              w1)"
    by blast
next
  fix e
  assume err: "r = Err e"
  then show t: "kvmTransformFlannelNetwork h net w = (Err e, w1)"
    using assms(1,4) by (simp add: kvmTransformFlannelNetwork_def)
  then show "kvmSetupNet h env i net w =
      (Err (Wrap (Errorf ''cannot transform flannel network into basic network'' []) e), w1)"
    using assms(5) by (simp add: kvmSetupNet_def)
qed

theorem kvmTransformFlannelNetwork_rejects_delegate_witness:
  "kvmSetupNet (flannelHost (Some [''name'' \<mapsto> VString ''mine''])) pod 0 (netOf ''flannel'')
     (start withLease) =
     (Err (Wrap (Errorf ''cannot transform flannel network into basic network'' [])
             (Errorf '''delegate' dictionary must not have 'name' field, it'll be set by flannel''
                [])),
      \<lparr>sys = withLease, trace = [EvOpen defaultSubnetFile]\<rparr>)"
proof -
  let ?h = "flannelHost (Some [''name'' \<mapsto> VString ''mine''])"
  define n where "n = zero_FlannelNetConf
    \<lparr>SubnetFile := defaultSubnetFile, Conf_Name := ''rktnet'', Conf_Type := ''flannel'',
     Delegate := Some [''name'' \<mapsto> VString ''mine'']\<rparr>"
  have a: "loadFlannelNetConf ?h (ConfBytes (netOf ''flannel'')) = Inr n"
    by (simp add: loadFlannelNetConf_def flannelHost_def n_def)
  have b: "Delegate n = Some [''name'' \<mapsto> VString ''mine'']"
    by (simp add: n_def)
  have sf: "SubnetFile n = defaultSubnetFile"
    by (simp add: n_def)
  have c: "hasKey [''name'' \<mapsto> VString ''mine''] ''name'' \<or>
      hasKey [''name'' \<mapsto> VString ''mine''] ''ipam'' \<or>
      (hasKey [''name'' \<mapsto> VString ''mine''] ''type'' \<and>
       \<not> isString (index [''name'' \<mapsto> VString ''mine''] ''type''))"
    by (simp add: hasKey_def)
  have p: "net_ParseCIDR ?h ''10.1.0.0/16'' =
           Inr \<lparr>IPNet_IP = [10, 1, 0, 0], IPNet_Mask = [255, 255, 0, 0]\<rparr>"
      "net_ParseCIDR ?h ''10.1.17.0/24'' =
           Inr \<lparr>IPNet_IP = [10, 1, 17, 0], IPNet_Mask = [255, 255, 255, 0]\<rparr>"
    by (simp_all add: flannelHost_def refhost_sel k_ParseCIDR_def SplitN_def parseIPv4_def
        parseDec_def digitVal_def CIDRMask_def maskByte_def)
  have u: "strconv_ParseUint ?h ''1472'' = Inr 1472"
    by (simp add: flannelHost_def refhost_sel k_ParseUint_def parseDec_def digitVal_def)
  have d: "loadFlannelSubnetEnv ?h (SubnetFile n) (start withLease) =
      (Ok \<lparr>nw = Some \<lparr>IPNet_IP = [10, 1, 0, 0], IPNet_Mask = [255, 255, 0, 0]\<rparr>,
           sn = Some \<lparr>IPNet_IP = [10, 1, 17, 0], IPNet_Mask = [255, 255, 255, 0]\<rparr>,
           mtu = 1472, ipmasq = True\<rparr>,
       \<lparr>sys = withLease, trace = [EvOpen defaultSubnetFile]\<rparr>)"
    using scanLines_example [OF p u]
    by (simp add: sf loadFlannelSubnetEnv_def call_def flannelHost_def refhost_sel
        k_Open_Scan_def withLease_def start_def emptyKernel_def)
  have t: "Conf_Type (Conf (netOf ''flannel'')) = ''flannel''"
    by (simp add: netOf_def zero_NetConf_def)
  have chk: "checkDelegate (Some [''name'' \<mapsto> VString ''mine'']) =
     Inl (Errorf '''delegate' dictionary must not have 'name' field, it'll be set by flannel'' [])"
    by (simp add: checkDelegate_def hasKey_def)
  from kvmTransformFlannelNetwork_rejects_delegate [OF a b c d t, of pod 0] chk show ?thesis
    by auto
qed

end
